(* ===== verification/Prelude.thy ===== *)
theory Prelude
  imports Complex_Main "HOL-Library.Monad_Syntax"
begin

text \<open>
  Shared conventions of the development: how the JavaScript values the sources
  manipulate are represented in HOL, and the generic lemmas on them that the
  component theories use.

  \<^item> A JavaScript number read from a coordinate field is \<open>jsnum = real option\<close>:
    \<open>Some r\<close> is a finite number (computed exactly, as a real), \<open>None\<close> is
    \<open>undefined\<close> or \<open>NaN\<close>. The sources only do arithmetic on these values, and
    arithmetic maps \<open>undefined\<close> to \<open>NaN\<close>, so one value stands for both.
  \<^item> Truthiness (\<open>x || y\<close>, \<open>x && y\<close>, \<open>if (x)\<close>) is written out: a number is
    falsy when it is \<open>0\<close> or \<open>NaN\<close>/\<open>undefined\<close>, a string when it is empty
    or \<open>undefined\<close>.
  \<^item> JSON documents (request bodies, the alert log) are the datatype \<open>json\<close>,
    with objects as association lists, since JavaScript objects keep the
    insertion order of their keys.
\<close>

named_theorems js_simps "evaluation rules of the JavaScript value model"

type_synonym jsnum = "real option"

subsection \<open>Truthiness and the short-circuit operators\<close>

definition js_truthy_num :: "jsnum \<Rightarrow> bool" where
  "js_truthy_num x = (case x of None \<Rightarrow> False | Some r \<Rightarrow> r \<noteq> 0)"

definition js_or_num :: "jsnum \<Rightarrow> jsnum \<Rightarrow> jsnum" where
  "js_or_num a b = (if js_truthy_num a then a else b)"

definition js_truthy_str :: "string option \<Rightarrow> bool" where
  "js_truthy_str s = (case s of None \<Rightarrow> False | Some t \<Rightarrow> t \<noteq> [])"

definition js_or_str :: "string option \<Rightarrow> string option \<Rightarrow> string option" where
  "js_or_str a b = (if js_truthy_str a then a else b)"

text \<open>\<open>a || d\<close> (or \<open>a ? a : d\<close>) for a possibly undefined string \<open>a\<close> and a
  non-empty literal \<open>d\<close>: the result is always a string.\<close>

definition js_str_default :: "string option \<Rightarrow> string \<Rightarrow> string" where
  "js_str_default a d = (case a of Some s \<Rightarrow> if s \<noteq> [] then s else d | None \<Rightarrow> d)"

text \<open>\<open>Math.round\<close>: the nearest integer, halves rounded towards \<open>+\<infinity>\<close>.\<close>

definition math_round :: "real \<Rightarrow> int" where
  "math_round x = \<lfloor>x + 1 / 2\<rfloor>"

subsection \<open>JSON values\<close>

datatype json =
    JNull
  | JBool bool
  | JNum real
  | JStr string
  | JArr "json list"
  | JObj "(string \<times> json) list"

text \<open>Truthiness of a JSON value; \<open>None\<close> is a missing property (\<open>undefined\<close>).\<close>

fun js_truthy_json :: "json option \<Rightarrow> bool" where
  "js_truthy_json None = False"
| "js_truthy_json (Some JNull) = False"
| "js_truthy_json (Some (JBool b)) = b"
| "js_truthy_json (Some (JNum r)) = (r \<noteq> 0)"
| "js_truthy_json (Some (JStr s)) = (s \<noteq> [])"
| "js_truthy_json (Some (JArr _)) = True"
| "js_truthy_json (Some (JObj _)) = True"

text \<open>
  Property assignment \<open>o[k] = v\<close> on an object held as an association list: an
  existing key keeps its position and takes the new value, a new key goes last.
\<close>

fun obj_set :: "string \<Rightarrow> json \<Rightarrow> (string \<times> json) list \<Rightarrow> (string \<times> json) list" where
  "obj_set k v [] = [(k, v)]"
| "obj_set k v ((k', v') # ps) =
     (if k = k' then (k, v) # ps else (k', v') # obj_set k v ps)"

text \<open>Property read \<open>o[k]\<close>: the first binding of the key.\<close>

abbreviation obj_get :: "(string \<times> json) list \<Rightarrow> string \<Rightarrow> json option" where
  "obj_get ps k \<equiv> map_of ps k"

subsection \<open>Generic lemmas\<close>

lemma js_truthy_num_simps [simp, js_simps]:
  "\<not> js_truthy_num None"
  "js_truthy_num (Some r) \<longleftrightarrow> r \<noteq> 0"
  by (simp_all add: js_truthy_num_def)

lemma js_truthy_str_simps [simp, js_simps]:
  "\<not> js_truthy_str None"
  "js_truthy_str (Some s) \<longleftrightarrow> s \<noteq> []"
  by (simp_all add: js_truthy_str_def)

lemma js_or_num_simps [simp, js_simps]:
  "js_or_num None b = b"
  "js_or_num (Some r) b = (if r \<noteq> 0 then Some r else b)"
  by (simp_all add: js_or_num_def)

lemma js_or_str_simps [simp, js_simps]:
  "js_or_str None b = b"
  "js_or_str (Some s) b = (if s \<noteq> [] then Some s else b)"
  by (simp_all add: js_or_str_def)

lemma js_str_default_simps [simp, js_simps]:
  "js_str_default None d = d"
  "js_str_default (Some s) d = (if s \<noteq> [] then s else d)"
  by (simp_all add: js_str_default_def)

lemma math_round_nonneg [simp]: "0 \<le> x \<Longrightarrow> 0 \<le> math_round x"
  by (simp add: math_round_def)

lemma math_round_mono: "x \<le> y \<Longrightarrow> math_round x \<le> math_round y"
  by (simp add: math_round_def floor_mono)

lemma math_round_of_int [simp]: "math_round (of_int n) = n"
  by (simp add: math_round_def)

lemma math_round_zero [simp]: "math_round 0 = 0"
  by (simp add: math_round_def)

lemma map_of_obj_set [simp]: "map_of (obj_set k v ps) = (map_of ps)(k \<mapsto> v)"
  by (induction ps) (auto simp: fun_eq_iff)

end
