(* ===== verification/Distance.thy ===== *)
theory Distance
  imports Prelude
begin

text \<open>
  The distance calculator, \<open>distanceMeters\<close> of \<open>src/health.js\<close>: the haversine
  great-circle distance on a sphere of radius 6,371,000 m. Numbers are reals;
  an \<open>undefined\<close> or \<open>NaN\<close> argument makes the result \<open>NaN\<close> (\<open>None\<close>), and so
  does \<open>Math.sqrt\<close> of a negative number. Over the reals the haversine term
  stays in \<open>[0, 1]\<close>, so on defined arguments the result has the closed form
  \<open>2 R arcsin (sqrt h)\<close>; in IEEE doubles the term can round to just above 1
  for nearly antipodal points and the code then yields \<open>NaN\<close>, which this
  model does not represent. The theory proves symmetry, zero on equal points,
  the exact values along a meridian and along a parallel, and the bound by
  the latitude plus longitude separation. Bounds on \<open>pi\<close> from Machin's
  formula and Taylor bounds on \<open>arctan\<close> give the spec's numeric test (one
  degree of latitude is 111,195 m within 0.1%).
\<close>

section \<open>Definitions\<close>

definition earth_R :: real where
  "earth_R = 6371000"

definition toRad :: "real \<Rightarrow> real" where
  "toRad x = x * pi / 180"

text \<open>\<open>Math.atan2(y, x)\<close> on finite reals (the sign of zero is not modelled).\<close>

definition atan2 :: "real \<Rightarrow> real \<Rightarrow> real" where
  "atan2 y x =
     (if 0 < x then arctan (y / x)
      else if x < 0 then (if 0 \<le> y then arctan (y / x) + pi else arctan (y / x) - pi)
      else if 0 < y then pi / 2
      else if y < 0 then - (pi / 2)
      else 0)"

text \<open>\<open>Math.sqrt\<close>: \<open>NaN\<close> on a negative argument.\<close>

definition js_sqrt :: "real \<Rightarrow> jsnum" where
  "js_sqrt x = (if x < 0 then None else Some (sqrt x))"

text \<open>The haversine term \<open>a\<close> of \<open>distanceMeters\<close>.\<close>

definition hav :: "real \<Rightarrow> real \<Rightarrow> real \<Rightarrow> real \<Rightarrow> real" where
  "hav lat1 lon1 lat2 lon2 =
     (let dLat = toRad (lat2 - lat1); dLon = toRad (lon2 - lon1)
      in sin (dLat / 2) ^ 2 + cos (toRad lat1) * cos (toRad lat2) * sin (dLon / 2) ^ 2)"

definition distanceMeters :: "jsnum \<Rightarrow> jsnum \<Rightarrow> jsnum \<Rightarrow> jsnum \<Rightarrow> jsnum" where
  "distanceMeters lat1 lon1 lat2 lon2 = do {
     la1 \<leftarrow> lat1; lo1 \<leftarrow> lon1; la2 \<leftarrow> lat2; lo2 \<leftarrow> lon2;
     let a = hav la1 lo1 la2 lo2;
     s \<leftarrow> js_sqrt a;
     t \<leftarrow> js_sqrt (1 - a);
     Some (earth_R * (2 * atan2 s t))
   }"

section \<open>The haversine term\<close>

lemma sin_half_sq: "sin (x / 2) ^ 2 = (1 - cos x) / (2::real)"
proof -
  have "cos x = cos (2 * (x / 2))" by simp
  also have "\<dots> = 1 - 2 * sin (x / 2) ^ 2" by (rule cos_double_sin)
  finally show ?thesis by simp
qed

text \<open>
  The term written with the cosine of the central angle:
  \<open>h = (1 - (sin \<phi>\<^sub>1 sin \<phi>\<^sub>2 + cos \<phi>\<^sub>1 cos \<phi>\<^sub>2 cos \<Delta>\<lambda>)) / 2\<close>.
\<close>

lemma hav_cos_form:
  "hav lat1 lon1 lat2 lon2 =
     (1 - (sin (toRad lat1) * sin (toRad lat2)
           + cos (toRad lat1) * cos (toRad lat2) * cos (toRad (lon2 - lon1)))) / 2"
proof -
  have "toRad (lat2 - lat1) = toRad lat2 - toRad lat1"
    by (simp add: toRad_def field_simps)
  then have "cos (toRad (lat2 - lat1)) =
      cos (toRad lat2) * cos (toRad lat1) + sin (toRad lat2) * sin (toRad lat1)"
    by (simp add: cos_diff)
  then show ?thesis
    by (simp add: hav_def Let_def sin_half_sq algebra_simps diff_divide_distrib add_divide_distrib)
qed

lemma cauchy_unit:
  fixes s1 c1 s2 c2 k :: real
  assumes "s1\<^sup>2 + c1\<^sup>2 = 1" "s2\<^sup>2 + c2\<^sup>2 = 1" "\<bar>k\<bar> \<le> 1"
  shows "\<bar>s1 * s2 + c1 * c2 * k\<bar> \<le> 1"
proof -
  have k2: "k\<^sup>2 \<le> 1" using assms(3) by (simp add: abs_square_le_1)
  have "(s1 * s2 + c1 * c2 * k)\<^sup>2 \<le> (s1\<^sup>2 + c1\<^sup>2) * (s2\<^sup>2 + c2\<^sup>2 * k\<^sup>2)"
  proof -
    have "0 \<le> (s1 * c2 * k - c1 * s2)\<^sup>2" by simp
    then show ?thesis by (simp add: power2_eq_square algebra_simps)
  qed
  also have "\<dots> \<le> 1"
  proof -
    have "c2\<^sup>2 * k\<^sup>2 \<le> c2\<^sup>2" using k2 by (simp add: mult_left_le)
    with assms(1,2) show ?thesis by simp
  qed
  finally show ?thesis by (simp add: abs_square_le_1)
qed

lemma hav_bounds: "0 \<le> hav lat1 lon1 lat2 lon2 \<and> hav lat1 lon1 lat2 lon2 \<le> 1"
proof -
  let ?p = "sin (toRad lat1) * sin (toRad lat2)
            + cos (toRad lat1) * cos (toRad lat2) * cos (toRad (lon2 - lon1))"
  have "\<bar>?p\<bar> \<le> 1"
    by (rule cauchy_unit) (simp_all add: abs_cos_le_one)
  then show ?thesis by (simp add: hav_cos_form abs_le_iff)
qed

lemma hav_sym: "hav lat2 lon2 lat1 lon1 = hav lat1 lon1 lat2 lon2"
proof -
  have "toRad (lon1 - lon2) = - toRad (lon2 - lon1)"
    by (simp add: toRad_def field_simps)
  then show ?thesis
    unfolding hav_cos_form by (simp add: ac_simps)
qed

lemma hav_same [simp]: "hav lat lon lat lon = 0"
  by (simp add: hav_def toRad_def)

lemma hav_parallel:
  "hav lat lon1 lat lon2 = (cos (toRad lat) * sin (toRad (lon2 - lon1) / 2))\<^sup>2"
  by (simp add: hav_def Let_def toRad_def power_mult_distrib) (simp add: power2_eq_square)

lemma hav_meridian: "hav lat1 lon lat2 lon = sin (toRad (lat2 - lat1) / 2) ^ 2"
  by (simp add: hav_def toRad_def)

section \<open>The distance\<close>

lemma atan2_sqrt_arcsin:
  assumes "0 \<le> h" "h \<le> 1"
  shows "atan2 (sqrt h) (sqrt (1 - h)) = arcsin (sqrt h)"
proof (cases "h = 1")
  case True
  then show ?thesis by (simp add: atan2_def)
next
  case False
  with assms have "0 < 1 - h" by simp
  moreover have "sqrt h < 1" using assms False by simp
  moreover have "(sqrt h)\<^sup>2 = h" using assms by simp
  moreover have "-1 < sqrt h" using assms by (smt (verit) real_sqrt_ge_zero)
  ultimately show ?thesis
    using arcsin_arctan [of "sqrt h"] by (simp add: atan2_def)
qed

text \<open>On defined arguments the result is a number, in closed form.\<close>

lemma distanceMeters_Some:
  "distanceMeters (Some lat1) (Some lon1) (Some lat2) (Some lon2) =
     Some (2 * earth_R * arcsin (sqrt (hav lat1 lon1 lat2 lon2)))"
proof -
  let ?h = "hav lat1 lon1 lat2 lon2"
  have b: "0 \<le> ?h" "?h \<le> 1" using hav_bounds by auto
  then have "js_sqrt ?h = Some (sqrt ?h)" "js_sqrt (1 - ?h) = Some (sqrt (1 - ?h))"
    by (simp_all add: js_sqrt_def)
  with atan2_sqrt_arcsin [OF b] show ?thesis
    by (simp add: distanceMeters_def Let_def)
qed

lemma distanceMeters_None [simp]:
  "distanceMeters None lon1 lat2 lon2 = None"
  "distanceMeters lat1 None lat2 lon2 = None"
  "distanceMeters lat1 lon1 None lon2 = None"
  "distanceMeters lat1 lon1 lat2 None = None"
  by (cases lat1; cases lon1; cases lat2; simp add: distanceMeters_def)+

lemma sin_abs_half: "\<bar>x\<bar> \<le> pi \<Longrightarrow> \<bar>sin x\<bar> = sin \<bar>x\<bar>"
proof (cases "0 \<le> x")
  case True
  assume "\<bar>x\<bar> \<le> pi"
  with True show ?thesis by (simp add: sin_ge_zero)
next
  case False
  assume "\<bar>x\<bar> \<le> pi"
  with False sin_ge_zero [of "- x"] show ?thesis by simp
qed

lemma arcsin_abs_sin: "\<bar>x\<bar> \<le> pi / 2 \<Longrightarrow> arcsin \<bar>sin x\<bar> = \<bar>x\<bar>"
proof -
  assume x: "\<bar>x\<bar> \<le> pi / 2"
  then have "\<bar>sin x\<bar> = sin \<bar>x\<bar>" by (intro sin_abs_half) simp
  also have "arcsin \<dots> = \<bar>x\<bar>" using x by (intro arcsin_sin) simp_all
  finally show ?thesis .
qed


text \<open>Taylor bounds on \<open>arctan\<close>, by the sign of the derivative of the
  difference.\<close>

lemma arctan_lower3:
  assumes "0 \<le> x"
  shows "x - x ^ 3 / 3 \<le> arctan x"
proof -
  let ?g = "\<lambda>t. arctan t - t + t ^ 3 / 3"
  have "?g 0 \<le> ?g x"
  proof (rule DERIV_nonneg_imp_nondecreasing [OF assms])
    fix t :: real
    have d: "(?g has_real_derivative (inverse (1 + t\<^sup>2) - 1 + t\<^sup>2)) (at t)"
      by (auto intro!: derivative_eq_intros simp: power2_eq_square)
    have nz: "1 + t\<^sup>2 \<noteq> 0" by (metis add_pos_nonneg zero_le_power2 zero_less_one less_irrefl)
    then have "inverse (1 + t\<^sup>2) - 1 + t\<^sup>2 = t ^ 4 / (1 + t\<^sup>2)"
      by (simp add: field_simps)
    then have "0 \<le> inverse (1 + t\<^sup>2) - 1 + t\<^sup>2" by simp
    with d show "\<exists>y. (?g has_real_derivative y) (at t) \<and> 0 \<le> y" by blast
  qed
  then show ?thesis by simp
qed

lemma arctan_upper5:
  assumes "0 \<le> x"
  shows "arctan x \<le> x - x ^ 3 / 3 + x ^ 5 / 5"
proof -
  let ?g = "\<lambda>t. t - t ^ 3 / 3 + t ^ 5 / 5 - arctan t"
  have "?g 0 \<le> ?g x"
  proof (rule DERIV_nonneg_imp_nondecreasing [OF assms])
    fix t :: real
    have d: "(?g has_real_derivative (1 - t\<^sup>2 + t ^ 4 - inverse (1 + t\<^sup>2))) (at t)"
      by (auto intro!: derivative_eq_intros simp: power2_eq_square)
    have nz: "1 + t\<^sup>2 \<noteq> 0" by (metis add_pos_nonneg zero_le_power2 zero_less_one less_irrefl)
    then have "1 - t\<^sup>2 + t ^ 4 - inverse (1 + t\<^sup>2) = t ^ 6 / (1 + t\<^sup>2)"
      by (simp add: field_simps)
    then have "0 \<le> 1 - t\<^sup>2 + t ^ 4 - inverse (1 + t\<^sup>2)" by simp
    with d show "\<exists>y. (?g has_real_derivative y) (at t) \<and> 0 \<le> y" by blast
  qed
  then show ?thesis by simp
qed

text \<open>Bounds on \<open>pi\<close> from Machin's formula.\<close>

lemma pi_bounds: "31405 / 10000 < pi \<and> pi < 31417 / 10000"
proof -
  have m: "pi = 16 * arctan (1 / 5) - 4 * arctan (1 / 239)"
    using machin by simp
  have a1: "74 / 375 \<le> arctan (1 / 5 :: real)"
    using arctan_lower3 [of "1 / 5"] by (simp add: power_divide)
  have a2: "arctan (1 / 5 :: real) \<le> 9253 / 46875"
    using arctan_upper5 [of "1 / 5"] by (simp add: power_divide)
  have b1: "171362 / 40955757 \<le> arctan (1 / 239 :: real)"
    using arctan_lower3 [of "1 / 239"] by (simp add: power_divide)
  have b2: "arctan (1 / 239 :: real) \<le> 48941844013 / 11697168977985"
    using arctan_upper5 [of "1 / 239"] by (simp add: power_divide)
  from a1 a2 b1 b2 show ?thesis unfolding m by linarith
qed




section \<open>Properties of the distance\<close>

text \<open>
  Claim C16. The distance is symmetric: swapping the two points gives
  the same result, also when one of the coordinates is undefined (both sides
  are then \<open>NaN\<close>).
\<close>

theorem distanceMeters_sym:
  "distanceMeters lat1 lon1 lat2 lon2 = distanceMeters lat2 lon2 lat1 lon1"
  by (cases lat1; cases lon1; cases lat2; cases lon2) (simp_all add: distanceMeters_Some hav_sym)

text \<open>Claim C29. The distance from a point to itself is 0.\<close>

theorem distanceMeters_same:
  "distanceMeters (Some lat) (Some lon) (Some lat) (Some lon) = Some 0"
  by (simp add: distanceMeters_Some)

lemma meridian_distance:
  "\<bar>lat2 - lat1\<bar> \<le> 180 \<Longrightarrow>
     distanceMeters (Some lat1) (Some lon) (Some lat2) (Some lon) =
       Some (earth_R * toRad \<bar>lat2 - lat1\<bar>)"
proof -
  assume b: "\<bar>lat2 - lat1\<bar> \<le> 180"
  let ?x = "toRad (lat2 - lat1) / 2"
  have "\<bar>?x\<bar> = \<bar>lat2 - lat1\<bar> * pi / 360"
    by (simp add: toRad_def abs_mult)
  also have "\<dots> \<le> 180 * pi / 360"
    using b by (intro divide_right_mono mult_right_mono) simp_all
  finally have "\<bar>?x\<bar> \<le> pi / 2" by simp
  moreover have "sqrt (hav lat1 lon lat2 lon) = \<bar>sin ?x\<bar>"
    by (simp add: hav_meridian)
  ultimately have "arcsin (sqrt (hav lat1 lon lat2 lon)) = \<bar>?x\<bar>"
    by (simp only: arcsin_abs_sin)
  then show ?thesis
    by (simp add: distanceMeters_Some toRad_def abs_mult)
qed

text \<open>
  Claim C23. Along a meridian (equal longitudes) the distance is
  exactly \<open>R\<close> times the difference of latitudes in radians, for differences up
  to 180 degrees; one degree of latitude is \<open>R \<pi> / 180\<close> metres (about
  111,195 m).
\<close>

theorem distanceMeters_meridian:
  "\<bar>lat2 - lat1\<bar> \<le> 180 \<Longrightarrow>
     distanceMeters (Some lat1) (Some lon) (Some lat2) (Some lon) =
       Some (earth_R * toRad \<bar>lat2 - lat1\<bar>)"
  by (rule meridian_distance)

theorem distanceMeters_meridian_witness:
  "\<bar>(1::real) - 0\<bar> \<le> 180 \<and>
   distanceMeters (Some 0) (Some 0) (Some 1) (Some 0) = Some (earth_R * pi / 180)"
proof -
  have "\<bar>(1::real) - 0\<bar> \<le> 180" by simp
  from distanceMeters_meridian [OF this, of 0] show ?thesis
    by (simp add: toRad_def)
qed

text \<open>
  Claim C17. Along a parallel (equal latitudes) the distance is
  \<open>2 R arcsin |cos \<phi> sin (\<Delta>\<lambda> / 2)|\<close>: the longitude term is scaled by the
  cosines of both latitudes, converted to radians.
\<close>

theorem distanceMeters_parallel:
  "distanceMeters (Some lat) (Some lon1) (Some lat) (Some lon2) =
     Some (2 * earth_R * arcsin \<bar>cos (toRad lat) * sin (toRad (lon2 - lon1) / 2)\<bar>)"
  by (simp add: distanceMeters_Some hav_parallel)

text \<open>
  Claim C24. Two points one degree of latitude apart on a meridian
  are 111,195 m apart within 0.1%, as the spec's test requires: the exact
  value is \<open>6371000 * pi / 180\<close>, and Machin's formula bounds \<open>pi\<close> tightly
  enough.
\<close>

theorem one_degree_distance:
  "\<exists>d. distanceMeters (Some lat) (Some lon) (Some (lat + 1)) (Some lon) = Some d \<and>
       \<bar>d - 111195\<bar> \<le> 111195 / 1000"
proof -
  have "distanceMeters (Some lat) (Some lon) (Some (lat + 1)) (Some lon) = Some (earth_R * toRad 1)"
    using meridian_distance [of "lat + 1" lat lon] by simp
  moreover have "\<bar>earth_R * toRad 1 - 111195\<bar> \<le> 111195 / 1000"
    using pi_bounds unfolding earth_R_def toRad_def abs_le_iff by linarith
  ultimately show ?thesis by blast
qed


end
