(* ===== verification/Overpass.thy ===== *)
theory Overpass
  imports Prelude
begin

text \<open>
  The geodata query client and the place normaliser: \<open>queryOverpass\<close> of
  \<open>src/health.js\<close>. A raw Overpass element (\<open>element\<close>) carries optional
  coordinates, an optional centre (for ways and relations) and optional tags (an object, kept as an association list);
  the normaliser maps each element to a \<open>place\<close> (the object literal of lines
  91--98) and keeps the places whose two coordinates are truthy (line 99). The
  query text is built from the radius, the position and the amenity types, the
  external service is a function from the query text to its \<open>response\<close>, and
  every failure is turned into the empty list. Number formatting
  (\<open>Number.prototype.toString\<close> inside the template literals) is a parameter
  \<open>num_str\<close>: it belongs to the JavaScript runtime, not to this program.
\<close>

section \<open>Data\<close>

record center =
  c_lat :: jsnum
  c_lon :: jsnum

record element =
  el_id :: int
  el_lat :: jsnum
  el_lon :: jsnum
  el_center :: "center option"
  el_tags :: "(string \<times> string) list option"

record place =
  place_id :: int
  place_type :: string
  place_name :: string
  place_lat :: jsnum
  place_lon :: jsnum
  place_tags :: "(string \<times> string) list"

text \<open>What the service answers: a transport failure (the \<open>fetch\<close> promise
  rejects), a body that is not JSON (\<open>resp.json()\<close> rejects), or a JSON object
  whose \<open>elements\<close> property may be missing.\<close>

datatype response = NetworkError | BadJson | Json "element list option"

section \<open>The normaliser\<close>

text \<open>\<open>el.tags && el.tags[k]\<close>: undefined when the element has no tags.\<close>

definition tag :: "element \<Rightarrow> string \<Rightarrow> string option" where
  "tag el k = (case el_tags el of None \<Rightarrow> None | Some t \<Rightarrow> map_of t k)"

text \<open>\<open>el.center && el.center.lat\<close> and \<open>el.center && el.center.lon\<close>.\<close>

definition center_lat :: "element \<Rightarrow> jsnum" where
  "center_lat el = (case el_center el of None \<Rightarrow> None | Some c \<Rightarrow> c_lat c)"

definition center_lon :: "element \<Rightarrow> jsnum" where
  "center_lon el = (case el_center el of None \<Rightarrow> None | Some c \<Rightarrow> c_lon c)"

definition to_place :: "element \<Rightarrow> place" where
  "to_place el =
     (let latp = js_or_num (el_lat el) (center_lat el);
          lonp = js_or_num (el_lon el) (center_lon el)
      in \<lparr> place_id = el_id el,
           place_type = js_str_default (tag el ''amenity'') ''place'',
           place_name = js_str_default (js_or_str (tag el ''name'') (tag el ''official_name'')) ''Unknown'',
           place_lat = latp,
           place_lon = lonp,
           place_tags = (case el_tags el of None \<Rightarrow> [] | Some t \<Rightarrow> t) \<rparr>)"

definition has_coords :: "place \<Rightarrow> bool" where
  "has_coords p \<longleftrightarrow> js_truthy_num (place_lat p) \<and> js_truthy_num (place_lon p)"

definition normalize_places :: "element list \<Rightarrow> place list" where
  "normalize_places els = filter has_coords (map to_place els)"

section \<open>The query client\<close>

definition type_filter :: "(real \<Rightarrow> string) \<Rightarrow> real \<Rightarrow> real \<Rightarrow> real \<Rightarrow> string \<Rightarrow> string" where
  "type_filter num_str radius lat lon t =
     (let sel = ''(around:'' @ num_str radius @ '','' @ num_str lat @ '','' @ num_str lon
                @ '')[amenity='' @ t @ ''];''
      in ''node'' @ sel @ ''way'' @ sel @ ''relation'' @ sel)"

definition overpass_query :: "(real \<Rightarrow> string) \<Rightarrow> real \<Rightarrow> real \<Rightarrow> real \<Rightarrow> string list \<Rightarrow> string" where
  "overpass_query num_str lat lon radius types =
     ''[out:json][timeout:25];('' @ concat (map (type_filter num_str radius lat lon) types)
     @ '');out center;''"

text \<open>The \<open>try\<close> block after the request: the places of an answer, \<open>[]\<close> on
  any failure.\<close>

definition response_places :: "response \<Rightarrow> place list" where
  "response_places r =
     (case r of
        NetworkError \<Rightarrow> []
      | BadJson \<Rightarrow> []
      | Json els \<Rightarrow> normalize_places (case els of None \<Rightarrow> [] | Some xs \<Rightarrow> xs))"

definition queryOverpass ::
  "(string \<Rightarrow> response) \<Rightarrow> (real \<Rightarrow> string) \<Rightarrow> real \<Rightarrow> real \<Rightarrow> real \<Rightarrow> string list \<Rightarrow> place list" where
  "queryOverpass fetch num_str lat lon radius types =
     response_places (fetch (overpass_query num_str lat lon radius types))"

section \<open>Lemmas\<close>

lemma normalize_simps [simp]:
  "normalize_places [] = []"
  "normalize_places (el # els) =
     (if has_coords (to_place el) then to_place el # normalize_places els else normalize_places els)"
  by (simp_all add: normalize_places_def)

lemma normalize_append [simp]: "normalize_places (xs @ ys) = normalize_places xs @ normalize_places ys"
  by (simp add: normalize_places_def)

lemma set_normalize: "p \<in> set (normalize_places els) \<longleftrightarrow> (\<exists>el \<in> set els. p = to_place el \<and> has_coords p)"
  by (auto simp: normalize_places_def)

lemma to_place_simps [simp]:
  "place_id (to_place el) = el_id el"
  "place_lat (to_place el) = js_or_num (el_lat el) (center_lat el)"
  "place_lon (to_place el) = js_or_num (el_lon el) (center_lon el)"
  "place_name (to_place el) =
     js_str_default (js_or_str (tag el ''name'') (tag el ''official_name'')) ''Unknown''"
  "place_type (to_place el) = js_str_default (tag el ''amenity'') ''place''"
  by (simp_all add: to_place_def Let_def)

lemma has_coords_iff:
  "has_coords p \<longleftrightarrow>
     (\<exists>la lo. place_lat p = Some la \<and> place_lon p = Some lo \<and> la \<noteq> 0 \<and> lo \<noteq> 0)"
  by (cases "place_lat p"; cases "place_lon p") (simp_all add: has_coords_def)

lemma response_places_has_coords: "p \<in> set (response_places r) \<Longrightarrow> has_coords p"
  by (auto simp: response_places_def set_normalize split: response.splits option.splits)

lemma queryOverpass_has_coords:
  "p \<in> set (queryOverpass fetch num_str lat lon radius types) \<Longrightarrow> has_coords p"
  unfolding queryOverpass_def by (rule response_places_has_coords)

section \<open>Properties of the query client and the normaliser\<close>

text \<open>
  Claim C8. Every place the query client returns has both
  coordinates defined and non-zero: the working-set invariant that the
  distance computations rely on.
\<close>

theorem queryOverpass_coords:
  "p \<in> set (queryOverpass fetch num_str lat lon radius types) \<Longrightarrow>
     \<exists>la lo. place_lat p = Some la \<and> place_lon p = Some lo \<and> la \<noteq> 0 \<and> lo \<noteq> 0"
proof -
  assume "p \<in> set (queryOverpass fetch num_str lat lon radius types)"
  then have "has_coords p" by (rule queryOverpass_has_coords)
  then show ?thesis unfolding has_coords_iff .
qed

theorem queryOverpass_coords_witness:
  "to_place \<lparr>el_id = 2, el_lat = Some 12.972, el_lon = Some 77.5946, el_center = None,
             el_tags = Some [(''amenity'', ''clinic'')]\<rparr>
     \<in> set (queryOverpass (\<lambda>_. Json (Some [\<lparr>el_id = 2, el_lat = Some 12.972, el_lon = Some 77.5946,
                 el_center = None, el_tags = Some [(''amenity'', ''clinic'')]\<rparr>]))
               (\<lambda>_. ''0'') 12.9716 77.5946 3000 [''clinic'']) \<and>
   (\<exists>la lo. la = (12.972::real) \<and> lo = (77.5946::real) \<and> la \<noteq> 0 \<and> lo \<noteq> 0)"
proof -
  let ?el = "\<lparr>el_id = 2, el_lat = Some 12.972, el_lon = Some 77.5946, el_center = None,
             el_tags = Some [(''amenity'', ''clinic'')]\<rparr>"
  have mem: "to_place ?el \<in> set (queryOverpass (\<lambda>_. Json (Some [?el])) (\<lambda>_. ''0'')
               12.9716 77.5946 3000 [''clinic''])"
    by (simp add: queryOverpass_def response_places_def has_coords_def)
  from queryOverpass_coords [OF mem] mem show ?thesis by simp
qed

text \<open>
  Claim C13. An element with neither coordinates nor a centre
  produces no place: the normaliser drops it and keeps the others, in order.
\<close>

theorem normalize_drops_no_coords:
  "el_lat el = None \<Longrightarrow> el_lon el = None \<Longrightarrow> el_center el = None \<Longrightarrow>
     normalize_places (xs @ el # ys) = normalize_places xs @ normalize_places ys"
  by (simp add: has_coords_def center_lat_def)

theorem normalize_drops_no_coords_witness:
  "el_lat \<lparr>el_id = 7, el_lat = None, el_lon = None, el_center = None, el_tags = None\<rparr> = None \<and>
   normalize_places [\<lparr>el_id = 7, el_lat = None, el_lon = None, el_center = None, el_tags = None\<rparr>,
              \<lparr>el_id = 8, el_lat = Some 1, el_lon = Some 2, el_center = None, el_tags = None\<rparr>]
     = [\<lparr>place_id = 8, place_type = ''place'', place_name = ''Unknown'', place_lat = Some 1,
         place_lon = Some 2, place_tags = []\<rparr>]"
proof -
  let ?e = "\<lparr>el_id = 7, el_lat = None, el_lon = None, el_center = None, el_tags = None\<rparr>"
  let ?f = "\<lparr>el_id = 8, el_lat = Some 1, el_lon = Some 2, el_center = None, el_tags = None\<rparr>"
  have "normalize_places ([] @ ?e # [?f]) = normalize_places [] @ normalize_places [?f]"
    by (rule normalize_drops_no_coords) simp_all
  then show ?thesis
    by (simp add: to_place_def has_coords_def tag_def center_lat_def center_lon_def)
qed

text \<open>
  Claim C14. A node on the equator (latitude exactly 0) without a
  centre produces no place, whatever its longitude: \<open>0\<close> is falsy, so
  \<open>el.lat || ...\<close> falls through to the missing centre and the filter
  \<open>p.lat && p.lon\<close> drops the record although its coordinate is present.
\<close>

theorem normalize_drops_equator:
  "el_lat el = Some 0 \<Longrightarrow> el_center el = None \<Longrightarrow> normalize_places [el] = []"
  by (simp add: has_coords_def center_lat_def)

theorem normalize_drops_equator_witness:
  "el_lat \<lparr>el_id = 3, el_lat = Some 0, el_lon = Some 32.5, el_center = None, el_tags = None\<rparr> = Some 0 \<and>
   normalize_places [\<lparr>el_id = 3, el_lat = Some 0, el_lon = Some 32.5, el_center = None, el_tags = None\<rparr>] = []"
  using normalize_drops_equator
    [of "\<lparr>el_id = 3, el_lat = Some 0, el_lon = Some 32.5, el_center = None, el_tags = None\<rparr>"]
  by simp

text \<open>
  Claim C31. An element whose tags have neither \<open>name\<close> nor
  \<open>official_name\<close> (or that has no tags) becomes a place named
  \<open>Unknown\<close>.
\<close>

theorem to_place_unknown_name:
  "tag el ''name'' = None \<Longrightarrow> tag el ''official_name'' = None \<Longrightarrow>
     place_name (to_place el) = ''Unknown''"
  by simp

theorem to_place_unknown_name_witness:
  "tag \<lparr>el_id = 4, el_lat = Some 1, el_lon = Some 1, el_center = None,
        el_tags = Some [(''amenity'', ''pharmacy'')]\<rparr> ''name'' = None \<and>
   tag \<lparr>el_id = 4, el_lat = Some 1, el_lon = Some 1, el_center = None,
        el_tags = Some [(''amenity'', ''pharmacy'')]\<rparr> ''official_name'' = None \<and>
   place_name (to_place \<lparr>el_id = 4, el_lat = Some 1, el_lon = Some 1, el_center = None,
        el_tags = Some [(''amenity'', ''pharmacy'')]\<rparr>) = ''Unknown''"
proof -
  let ?e = "\<lparr>el_id = 4, el_lat = Some 1, el_lon = Some 1, el_center = None,
        el_tags = Some [(''amenity'', ''pharmacy'')]\<rparr>"
  have "tag ?e ''name'' = None" "tag ?e ''official_name'' = None"
    by (simp_all add: tag_def)
  with to_place_unknown_name [of ?e] show ?thesis by simp
qed

end
