(* ===== verification/Nearest.thy ===== *)
theory Nearest
  imports Distance Overpass
begin

text \<open>
  The nearest resolver, \<open>findNearestPlace\<close> of \<open>src/health.js\<close>. The user
  position is the JavaScript object the caller passes, a map from property
  names to numbers: the code reads its properties \<open>lat\<close> and \<open>lon\<close>, and a
  missing property is \<open>undefined\<close>. The \<open>forEach\<close> loop is \<open>nearest_loop\<close>
  over the remaining places, with \<open>best\<close> and \<open>bestDist\<close> as accumulators
  (\<open>bestDist = None\<close> stands for the initial \<open>Infinity\<close>); a place whose
  distance is \<open>NaN\<close> fails \<open>d < bestDist\<close> and is skipped. The result is the
  place spread into a new object with the extra field \<open>distance_m\<close>, the
  record extension \<open>annotated_place\<close>.

  The reference \<open>first_min\<close> states what the loop computes: the first place
  of minimal defined distance. The theory proves that the loop refines it,
  characterises it by the decomposition \<open>pre @ p # post\<close> of the list, and
  derives the contract of the spec (empty list, one place, ties broken by
  the first place met, places without a distance ignored).
\<close>

section \<open>Definitions\<close>

record annotated_place = place +
  distance_m :: int

definition annotate :: "place \<Rightarrow> real \<Rightarrow> annotated_place" where
  "annotate p d = place.extend p (annotated_place.fields (math_round d))"

definition dist_to :: "(string \<rightharpoonup> real) \<Rightarrow> place \<Rightarrow> jsnum" where
  "dist_to user p = distanceMeters (user ''lat'') (user ''lon'') (place_lat p) (place_lon p)"

text \<open>\<open>d < bestDist\<close> for a number \<open>d\<close>, with \<open>None\<close> as \<open>Infinity\<close>.\<close>

definition lt_best :: "real \<Rightarrow> real option \<Rightarrow> bool" where
  "lt_best r b = (case b of None \<Rightarrow> True | Some x \<Rightarrow> r < x)"

fun nearest_loop ::
  "(place \<Rightarrow> jsnum) \<Rightarrow> place list \<Rightarrow> annotated_place option \<Rightarrow> real option \<Rightarrow> annotated_place option" where
  "nearest_loop d [] best bestDist = best"
| "nearest_loop d (p # ps) best bestDist =
     (case d p of
        None \<Rightarrow> nearest_loop d ps best bestDist
      | Some r \<Rightarrow>
          if lt_best r bestDist then nearest_loop d ps (Some (annotate p r)) (Some r)
          else nearest_loop d ps best bestDist)"

definition findNearestPlace :: "(string \<rightharpoonup> real) \<Rightarrow> place list \<Rightarrow> annotated_place option" where
  "findNearestPlace user places =
     (if places = [] then None else nearest_loop (dist_to user) places None None)"

section \<open>The reference: the first place of least distance\<close>

fun first_min :: "('a \<Rightarrow> real option) \<Rightarrow> 'a list \<Rightarrow> ('a \<times> real) option" where
  "first_min d [] = None"
| "first_min d (x # xs) =
     (case d x of
        None \<Rightarrow> first_min d xs
      | Some r \<Rightarrow>
          (case first_min d xs of
             None \<Rightarrow> Some (x, r)
           | Some (y, s) \<Rightarrow> if s < r then Some (y, s) else Some (x, r)))"

text \<open>\<open>x\<close> is not nearer than \<open>r\<close> (\<open>strict\<close>: strictly farther), or has no distance.\<close>

definition farther :: "bool \<Rightarrow> ('a \<Rightarrow> real option) \<Rightarrow> real \<Rightarrow> 'a \<Rightarrow> bool" where
  "farther strict d r x = (case d x of None \<Rightarrow> True | Some s \<Rightarrow> if strict then r < s else r \<le> s)"

definition first_min_spec :: "('a \<Rightarrow> real option) \<Rightarrow> 'a list \<Rightarrow> 'a \<Rightarrow> real \<Rightarrow> bool" where
  "first_min_spec d xs x r \<longleftrightarrow>
     (\<exists>pre post. xs = pre @ x # post \<and> d x = Some r \<and>
        list_all (farther True d r) pre \<and> list_all (farther False d r) post)"

section \<open>Lemmas\<close>

lemma lt_best_simps [simp]:
  "lt_best r None"
  "lt_best r (Some x) \<longleftrightarrow> r < x"
  by (simp_all add: lt_best_def)

lemma first_min_None: "first_min d xs = None \<longleftrightarrow> (\<forall>x \<in> set xs. d x = None)"
  by (induction xs) (auto split: option.splits)

lemma first_min_Some_key: "first_min d xs = Some (x, r) \<Longrightarrow> d x = Some r \<and> x \<in> set xs"
  by (induction xs arbitrary: x r) (auto split: option.splits if_splits)

lemma first_min_le: "first_min d xs = Some (x, r) \<Longrightarrow> y \<in> set xs \<Longrightarrow> d y = Some s \<Longrightarrow> r \<le> s"
proof (induction xs arbitrary: x r)
  case Nil
  then show ?case by simp
next
  case (Cons a xs)
  show ?case
  proof (cases "d a")
    case None
    with Cons.prems have "first_min d xs = Some (x, r)" "y \<in> set xs" by auto
    with Cons.IH Cons.prems(3) show ?thesis by blast
  next
    case (Some ra)
    show ?thesis
    proof (cases "first_min d xs")
      case None
      then have "\<forall>z \<in> set xs. d z = None" by (simp add: first_min_None)
      with Cons.prems Some None show ?thesis by auto
    next
      case (Some ys)
      obtain yy ss where ys: "ys = (yy, ss)" by fastforce
      have IH: "y \<in> set xs \<Longrightarrow> ss \<le> s"
        using Cons.IH [of yy ss] Some ys Cons.prems(3) by blast
      from Cons.prems \<open>d a = Some ra\<close> Some ys IH show ?thesis
        by (auto split: if_splits)
    qed
  qed
qed

text \<open>What the loop computes from any accumulator state, in terms of the reference.\<close>

lemma nearest_loop_first_min:
  "nearest_loop d xs best bestDist =
     (case first_min d xs of
        None \<Rightarrow> best
      | Some (x, r) \<Rightarrow> if lt_best r bestDist then Some (annotate x r) else best)"
proof (induction xs arbitrary: best bestDist)
  case Nil
  then show ?case by simp
next
  case (Cons p ps)
  show ?case
  proof (cases "d p")
    case None
    with Cons.IH show ?thesis by simp
  next
    case (Some r)
    show ?thesis
    proof (cases "first_min d ps")
      case None
      with Some Cons.IH show ?thesis by simp
    next
      case (Some ys)
      obtain y s where ys: "ys = (y, s)" by fastforce
      with Some \<open>d p = Some r\<close> Cons.IH show ?thesis
        by (cases bestDist) (auto simp: ys)
    qed
  qed
qed

lemma first_min_imp_spec:
  "first_min d xs = Some (x, r) \<Longrightarrow> first_min_spec d xs x r"
proof (induction xs arbitrary: x r)
  case Nil
  then show ?case by simp
next
  case (Cons a xs)
  show ?case
  proof (cases "d a")
    case None
    with Cons.prems have "first_min_spec d xs x r" by (intro Cons.IH) simp
    then obtain pre post where "xs = pre @ x # post" "d x = Some r"
        "list_all (farther True d r) pre" "list_all (farther False d r) post"
      by (auto simp: first_min_spec_def)
    with None show ?thesis unfolding first_min_spec_def
      by (intro exI [of _ "a # pre"] exI [of _ post]) (simp add: farther_def)
  next
    case (Some ra)
    show ?thesis
    proof (cases "first_min d xs")
      case None
      with Some Cons.prems have "x = a" "r = ra" by auto
      moreover have "list_all (farther False d ra) xs"
        using None by (simp add: first_min_None list_all_iff farther_def)
      ultimately show ?thesis using Some unfolding first_min_spec_def
        by (intro exI [of _ "[]"] exI [of _ xs]) simp
    next
      case (Some ys)
      obtain y s where ys: "ys = (y, s)" by fastforce
      show ?thesis
      proof (cases "s < ra")
        case True
        with Cons.prems \<open>d a = Some ra\<close> Some ys have "x = y" "r = s" by auto
        with Some ys have "first_min_spec d xs x r" by (intro Cons.IH) simp
        then obtain pre post where "xs = pre @ x # post" "d x = Some r"
            "list_all (farther True d r) pre" "list_all (farther False d r) post"
          by (auto simp: first_min_spec_def)
        with True \<open>d a = Some ra\<close> \<open>r = s\<close> show ?thesis unfolding first_min_spec_def
          by (intro exI [of _ "a # pre"] exI [of _ post]) (simp add: farther_def)
      next
        case False
        with Cons.prems \<open>d a = Some ra\<close> Some ys have "x = a" "r = ra" by auto
        have "list_all (farther False d ra) xs"
          unfolding list_all_iff farther_def
        proof (intro ballI)
          fix z assume "z \<in> set xs"
          with first_min_le [of d xs y s z] Some ys False
          show "case d z of None \<Rightarrow> True | Some t \<Rightarrow> if False then ra < t else ra \<le> t"
            by (auto split: option.split)
        qed
        with \<open>x = a\<close> \<open>r = ra\<close> \<open>d a = Some ra\<close> show ?thesis unfolding first_min_spec_def
          by (intro exI [of _ "[]"] exI [of _ xs]) simp
      qed
    qed
  qed
qed

lemma spec_imp_first_min:
  "xs = pre @ x # post \<Longrightarrow> d x = Some r \<Longrightarrow> list_all (farther True d r) pre \<Longrightarrow>
     list_all (farther False d r) post \<Longrightarrow> first_min d xs = Some (x, r)"
proof (induction pre arbitrary: xs)
  case Nil
  show ?case
  proof (cases "first_min d post")
    case None
    with Nil.prems(1,2) show ?thesis by simp
  next
    case (Some ys)
    obtain y s where ys: "ys = (y, s)" by fastforce
    with Some have "first_min d post = Some (y, s)" by simp
    from first_min_Some_key [OF this] have "d y = Some s" "y \<in> set post" by simp_all
    with Nil.prems(4) have "r \<le> s" by (auto simp: list_all_iff farther_def)
    with Some ys Nil.prems(1,2) show ?thesis by simp
  qed
next
  case (Cons a pre)
  have rest: "first_min d (pre @ x # post) = Some (x, r)"
    using Cons.prems by (intro Cons.IH) simp_all
  have fa: "farther True d r a" using Cons.prems(3) by simp
  show ?case
  proof (cases "d a")
    case None
    with rest Cons.prems(1) show ?thesis by simp
  next
    case (Some ra)
    with fa have "r < ra" by (simp add: farther_def)
    with Some rest Cons.prems(1) show ?thesis by simp
  qed
qed

lemma first_min_iff_spec: "first_min d xs = Some (x, r) \<longleftrightarrow> first_min_spec d xs x r"
proof
  assume "first_min d xs = Some (x, r)"
  then show "first_min_spec d xs x r" by (rule first_min_imp_spec)
next
  assume "first_min_spec d xs x r"
  then obtain pre post where "xs = pre @ x # post" "d x = Some r"
      "list_all (farther True d r) pre" "list_all (farther False d r) post"
    unfolding first_min_spec_def by blast
  then show "first_min d xs = Some (x, r)" by (rule spec_imp_first_min)
qed

lemma findNearestPlace_first_min:
  "findNearestPlace user ps = map_option (\<lambda>(x, r). annotate x r) (first_min (dist_to user) ps)"
  by (simp add: findNearestPlace_def nearest_loop_first_min split: option.split)

lemma distance_m_annotate [simp]: "distance_m (annotate p r) = math_round r"
  by (simp add: annotate_def place.defs annotated_place.defs)

lemma place_fields_annotate [simp]:
  "place_id (annotate p r) = place_id p" "place_name (annotate p r) = place_name p"
  "place_type (annotate p r) = place_type p" "place_lat (annotate p r) = place_lat p"
  "place_lon (annotate p r) = place_lon p" "place_tags (annotate p r) = place_tags p"
  by (simp_all add: annotate_def place.defs annotated_place.defs)

lemma findNearestPlace_no_lon: "user ''lon'' = None \<Longrightarrow> findNearestPlace user ps = None"
  by (simp add: findNearestPlace_first_min first_min_None dist_to_def)

section \<open>Properties of the nearest resolver\<close>

text \<open>
  Claim C1. \<open>findNearestPlace\<close> returns an annotated place exactly
  when the list splits as \<open>pre @ p # post\<close> where \<open>p\<close> has a distance
  \<open>r\<close>, every place before \<open>p\<close> is strictly farther or has no distance,
  and no place after \<open>p\<close> is nearer; the result is \<open>p\<close> with the
  extra field \<open>distance_m = Math.round r\<close>. This is the spec's linear scan
  with ties broken by the first place met.
\<close>

theorem findNearestPlace_contract:
  "findNearestPlace user ps = Some a \<longleftrightarrow>
     (\<exists>p r. first_min_spec (dist_to user) ps p r \<and> a = annotate p r)"
proof -
  have "findNearestPlace user ps = Some a \<longleftrightarrow>
        (\<exists>p r. first_min (dist_to user) ps = Some (p, r) \<and> a = annotate p r)"
    by (auto simp: findNearestPlace_first_min)
  then show ?thesis by (simp add: first_min_iff_spec)
qed

theorem findNearestPlace_contract_witness:
  "findNearestPlace [''lat'' \<mapsto> 10, ''lon'' \<mapsto> 20]
     [\<lparr>place_id = 1, place_type = ''hospital'', place_name = ''A'', place_lat = Some 10,
       place_lon = Some 20, place_tags = []\<rparr>,
      \<lparr>place_id = 2, place_type = ''clinic'', place_name = ''B'', place_lat = Some 10,
       place_lon = Some 20, place_tags = []\<rparr>] =
   Some (annotate \<lparr>place_id = 1, place_type = ''hospital'', place_name = ''A'', place_lat = Some 10,
       place_lon = Some 20, place_tags = []\<rparr> 0)"
proof -
  let ?p = "\<lparr>place_id = 1, place_type = ''hospital'', place_name = ''A'', place_lat = Some 10,
       place_lon = Some 20, place_tags = []\<rparr> :: place"
  let ?q = "\<lparr>place_id = 2, place_type = ''clinic'', place_name = ''B'', place_lat = Some 10,
       place_lon = Some 20, place_tags = []\<rparr> :: place"
  let ?u = "[''lat'' \<mapsto> 10, ''lon'' \<mapsto> 20] :: string \<rightharpoonup> real"
  have "first_min_spec (dist_to ?u) [?p, ?q] ?p 0"
    unfolding first_min_spec_def
    by (intro exI [of _ "[]"] exI [of _ "[?q]"])
       (simp add: dist_to_def distanceMeters_Some farther_def)
  then show ?thesis using findNearestPlace_contract [of ?u "[?p, ?q]"] by blast
qed

text \<open>
  Claim C12. \<open>findNearestPlace\<close> returns \<open>null\<close> exactly when no
  place has a distance to the user: for the empty list, and when every
  distance is \<open>NaN\<close>.
\<close>

theorem findNearestPlace_None_iff:
  "findNearestPlace user ps = None \<longleftrightarrow> (\<forall>p \<in> set ps. dist_to user p = None)"
  by (simp add: findNearestPlace_first_min first_min_None)

theorem findNearestPlace_None_iff_witness:
  "findNearestPlace [''lat'' \<mapsto> 10, ''lon'' \<mapsto> 20] [] = None \<and>
   findNearestPlace [''lat'' \<mapsto> 10, ''lon'' \<mapsto> 20]
     [\<lparr>place_id = 1, place_type = ''hospital'', place_name = ''A'', place_lat = None,
       place_lon = Some 20, place_tags = []\<rparr>] = None"
  using findNearestPlace_None_iff [of "[''lat'' \<mapsto> 10, ''lon'' \<mapsto> 20]" "[]"]
    findNearestPlace_None_iff [of "[''lat'' \<mapsto> 10, ''lon'' \<mapsto> 20]"
      "[\<lparr>place_id = 1, place_type = ''hospital'', place_name = ''A'', place_lat = None,
       place_lon = Some 20, place_tags = []\<rparr>]"]
  by (simp add: dist_to_def)

text \<open>
  Claim C30. For a single place with a distance \<open>r\<close> the result
  is that place annotated with \<open>distance_m = Math.round r\<close>.
\<close>

theorem findNearestPlace_single:
  "dist_to user p = Some r \<Longrightarrow> findNearestPlace user [p] = Some (annotate p r)"
  by (simp add: findNearestPlace_first_min)

theorem findNearestPlace_single_witness:
  "dist_to [''lat'' \<mapsto> 10, ''lon'' \<mapsto> 20]
     \<lparr>place_id = 1, place_type = ''hospital'', place_name = ''A'', place_lat = Some 10,
       place_lon = Some 20, place_tags = []\<rparr> = Some 0 \<and>
   distance_m (the (findNearestPlace [''lat'' \<mapsto> 10, ''lon'' \<mapsto> 20]
     [\<lparr>place_id = 1, place_type = ''hospital'', place_name = ''A'', place_lat = Some 10,
       place_lon = Some 20, place_tags = []\<rparr>])) = 0"
proof -
  let ?p = "\<lparr>place_id = 1, place_type = ''hospital'', place_name = ''A'', place_lat = Some 10,
       place_lon = Some 20, place_tags = []\<rparr> :: place"
  let ?u = "[''lat'' \<mapsto> 10, ''lon'' \<mapsto> 20] :: string \<rightharpoonup> real"
  have d: "dist_to ?u ?p = Some 0" by (simp add: dist_to_def distanceMeters_Some)
  from findNearestPlace_single [OF d] d show ?thesis by simp
qed

text \<open>
  Claim C2. The panic handler passes \<open>userLatLng = {lat, lng}\<close>,
  but \<open>findNearestPlace\<close> reads \<open>user.lon\<close>: on such an object every
  distance is \<open>NaN\<close> and the result is \<open>null\<close>, whatever the places.
\<close>

theorem findNearestPlace_lat_lng_object:
  "findNearestPlace [''lat'' \<mapsto> lat, ''lng'' \<mapsto> lng] ps = None"
  by (rule findNearestPlace_no_lon) simp

end
