(* ===== verification/Ranking.thy ===== *)
theory Ranking
  imports Nearest "HOL-Library.Multiset"
begin

text \<open>
  The proximity ranker: the call
  \<open>places.sort((a,b) => distanceMeters(lat, lon, a.lat, a.lon) - distanceMeters(lat, lon, b.lat, b.lon))\<close>
  in \<open>findNearbyPlaces\<close> of \<open>src/health.js\<close>.

  \<open>Array.prototype.sort\<close> is stable (ECMAScript 2019 and later) and moves
  \<open>a\<close> behind \<open>b\<close> only when the comparator is positive; a \<open>NaN\<close> result
  counts as \<open>+0\<close>. \<open>array_sort\<close> is a stable insertion sort with exactly this
  use of the comparator. An engine may use another algorithm (V8 uses
  TimSort), but for a consistent comparator every stable sort returns the
  same list: theorem \<open>rank_places_unique\<close> shows that any permutation that is
  sorted by distance and keeps the input order of equal distances is the
  model's result. Where a distance is \<open>NaN\<close> the comparator is inconsistent and
  the order the engine produces is implementation-defined; the theorems
  assume every distance defined, which holds for the places of a query
  (\<open>queryOverpass_coords\<close>).
\<close>

section \<open>Definitions\<close>

text \<open>Subtraction of two numbers that may be \<open>NaN\<close>.\<close>

definition js_sub :: "jsnum \<Rightarrow> jsnum \<Rightarrow> jsnum" where
  "js_sub a b = (case (a, b) of (Some x, Some y) \<Rightarrow> Some (x - y) | _ \<Rightarrow> None)"

text \<open>The sort moves an element behind another only on a positive comparison.\<close>

definition cmp_gt :: "jsnum \<Rightarrow> bool" where
  "cmp_gt c = (case c of Some v \<Rightarrow> 0 < v | None \<Rightarrow> False)"

fun insert_sorted :: "('a \<Rightarrow> 'a \<Rightarrow> jsnum) \<Rightarrow> 'a \<Rightarrow> 'a list \<Rightarrow> 'a list" where
  "insert_sorted cmp x [] = [x]"
| "insert_sorted cmp x (y # ys) =
     (if cmp_gt (cmp x y) then y # insert_sorted cmp x ys else x # y # ys)"

definition array_sort :: "('a \<Rightarrow> 'a \<Rightarrow> jsnum) \<Rightarrow> 'a list \<Rightarrow> 'a list" where
  "array_sort cmp xs = foldr (insert_sorted cmp) xs []"

text \<open>\<open>distanceMeters(lat, lon, p.lat, p.lon)\<close> with the position passed to
  \<open>findNearbyPlaces\<close>.\<close>

definition place_dist :: "real \<Rightarrow> real \<Rightarrow> place \<Rightarrow> jsnum" where
  "place_dist lat lon p = distanceMeters (Some lat) (Some lon) (place_lat p) (place_lon p)"

definition place_cmp :: "real \<Rightarrow> real \<Rightarrow> place \<Rightarrow> place \<Rightarrow> jsnum" where
  "place_cmp lat lon a b = js_sub (place_dist lat lon a) (place_dist lat lon b)"

definition rank_places :: "real \<Rightarrow> real \<Rightarrow> place list \<Rightarrow> place list" where
  "rank_places lat lon places = array_sort (place_cmp lat lon) places"

text \<open>The distance as a plain number, for stating sortedness (\<open>0\<close> stands in
  for \<open>NaN\<close>, which the theorems exclude).\<close>

definition dkey :: "real \<Rightarrow> real \<Rightarrow> place \<Rightarrow> real" where
  "dkey lat lon p = (case place_dist lat lon p of Some r \<Rightarrow> r | None \<Rightarrow> 0)"

section \<open>Lemmas\<close>

lemma mset_insert_sorted [simp]: "mset (insert_sorted cmp x xs) = add_mset x (mset xs)"
  by (induction xs) auto

lemma mset_array_sort [simp]: "mset (array_sort cmp xs) = mset xs"
  by (induction xs) (simp_all add: array_sort_def)

lemma set_array_sort [simp]: "set (array_sort cmp xs) = set xs"
  by (metis mset_array_sort set_mset_mset)

lemma array_sort_Cons: "array_sort cmp (x # xs) = insert_sorted cmp x (array_sort cmp xs)"
  by (simp add: array_sort_def)

text \<open>On keys that are all defined, the comparator \<open>key a - key b\<close> makes the
  insertion step HOL's \<open>insort_key\<close>.\<close>

lemma insert_sorted_insort_key:
  assumes "\<forall>y \<in> insert x (set ys). k y = Some (f y)"
  shows "insert_sorted (\<lambda>a b. js_sub (k a) (k b)) x ys = insort_key f x ys"
  using assms
  by (induction ys) (auto simp: js_sub_def cmp_gt_def)

lemma array_sort_sort_key:
  assumes "\<forall>y \<in> set xs. k y = Some (f y)"
  shows "array_sort (\<lambda>a b. js_sub (k a) (k b)) xs = sort_key f xs"
  using assms
proof (induction xs)
  case Nil
  then show ?case by (simp add: array_sort_def)
next
  case (Cons x xs)
  then have "array_sort (\<lambda>a b. js_sub (k a) (k b)) xs = sort_key f xs" by simp
  moreover have "\<forall>y \<in> insert x (set (sort_key f xs)). k y = Some (f y)"
    using Cons.prems by simp
  ultimately show ?case
    by (simp add: array_sort_Cons insert_sorted_insort_key)
qed

lemma place_dist_dkey:
  "place_dist lat lon p \<noteq> None \<Longrightarrow> place_dist lat lon p = Some (dkey lat lon p)"
  by (auto simp: dkey_def)

lemma rank_places_sort_key:
  "\<forall>p \<in> set ps. place_dist lat lon p \<noteq> None \<Longrightarrow>
     rank_places lat lon ps = sort_key (dkey lat lon) ps"
  unfolding rank_places_def place_cmp_def
  by (rule array_sort_sort_key) (simp add: place_dist_dkey)

section \<open>Properties of the proximity ranker\<close>

text \<open>
  Claim C6. When every place has a distance to the position, the
  ranked list is in non-decreasing order of distance.
\<close>

theorem rank_places_sorted:
  "\<forall>p \<in> set ps. place_dist lat lon p \<noteq> None \<Longrightarrow>
     sorted (map (dkey lat lon) (rank_places lat lon ps))"
  by (simp add: rank_places_sort_key)

theorem rank_places_sorted_witness:
  "sorted (map (dkey 0 0) (rank_places 0 0
     [\<lparr>place_id = 1, place_type = ''hospital'', place_name = ''A'', place_lat = Some 1,
        place_lon = Some 2, place_tags = []\<rparr>,
      \<lparr>place_id = 2, place_type = ''clinic'', place_name = ''B'', place_lat = Some 3,
        place_lon = Some 4, place_tags = []\<rparr>]))"
proof -
  let ?p = "\<lparr>place_id = 1, place_type = ''hospital'', place_name = ''A'', place_lat = Some 1,
        place_lon = Some 2, place_tags = []\<rparr> :: place"
  let ?q = "\<lparr>place_id = 2, place_type = ''clinic'', place_name = ''B'', place_lat = Some 3,
        place_lon = Some 4, place_tags = []\<rparr> :: place"
  have h: "\<forall>p \<in> set [?p, ?q]. place_dist 0 0 p \<noteq> None"
    by (simp add: place_dist_def distanceMeters_Some)
  show ?thesis by (rule rank_places_sorted [OF h])
qed

text \<open>
  Claim C18. The ranking is stable: places at equal distance keep
  their input order.
\<close>

theorem rank_places_stable:
  "\<forall>p \<in> set ps. place_dist lat lon p \<noteq> None \<Longrightarrow>
     filter (\<lambda>q. dkey lat lon q = r) (rank_places lat lon ps) = filter (\<lambda>q. dkey lat lon q = r) ps"
  by (simp add: rank_places_sort_key sort_key_stable)

theorem rank_places_stable_witness:
  "filter (\<lambda>q. dkey 0 0 q = dkey 0 0 \<lparr>place_id = 1, place_type = ''hospital'', place_name = ''A'',
        place_lat = Some 1, place_lon = Some 2, place_tags = []\<rparr>) (rank_places 0 0
     [\<lparr>place_id = 1, place_type = ''hospital'', place_name = ''A'', place_lat = Some 1,
        place_lon = Some 2, place_tags = []\<rparr>,
      \<lparr>place_id = 2, place_type = ''clinic'', place_name = ''B'', place_lat = Some 1,
        place_lon = Some 2, place_tags = []\<rparr>]) =
     [\<lparr>place_id = 1, place_type = ''hospital'', place_name = ''A'', place_lat = Some 1,
        place_lon = Some 2, place_tags = []\<rparr>,
      \<lparr>place_id = 2, place_type = ''clinic'', place_name = ''B'', place_lat = Some 1,
        place_lon = Some 2, place_tags = []\<rparr>]"
proof -
  let ?p = "\<lparr>place_id = 1, place_type = ''hospital'', place_name = ''A'', place_lat = Some 1,
        place_lon = Some 2, place_tags = []\<rparr> :: place"
  let ?q = "\<lparr>place_id = 2, place_type = ''clinic'', place_name = ''B'', place_lat = Some 1,
        place_lon = Some 2, place_tags = []\<rparr> :: place"
  have h: "\<forall>p \<in> set [?p, ?q]. place_dist 0 0 p \<noteq> None"
    by (simp add: place_dist_def distanceMeters_Some)
  have "dkey 0 0 ?q = dkey 0 0 ?p" by (simp add: dkey_def place_dist_def)
  with rank_places_stable [OF h, of "dkey 0 0 ?p"] h show ?thesis by simp
qed

text \<open>
  Claim C11. The ranking is the only list a conforming stable sort
  can return: every permutation of the places that is sorted by distance and
  keeps the input order of equal distances equals \<open>rank_places\<close>. So the
  model is exact for any engine's sorting algorithm.
\<close>

theorem rank_places_unique:
  assumes "\<forall>p \<in> set ps. place_dist lat lon p \<noteq> None"
    and "mset ys = mset ps"
    and "sorted (map (dkey lat lon) ys)"
    and "\<forall>r. filter (\<lambda>q. dkey lat lon q = r) ys = filter (\<lambda>q. dkey lat lon q = r) ps"
  shows "ys = rank_places lat lon ps"
proof -
  have "sort_key (dkey lat lon) ps = ys"
  proof (rule properties_for_sort_key)
    show "mset ys = mset ps" by (rule assms(2))
    show "sorted (map (dkey lat lon) ys)" by (rule assms(3))
    fix k
    show "filter (\<lambda>x. dkey lat lon k = dkey lat lon x) ys =
          filter (\<lambda>x. dkey lat lon k = dkey lat lon x) ps"
      using assms(4) [rule_format, of "dkey lat lon k"] by (simp add: eq_commute)
  qed
  with assms(1) show ?thesis by (simp add: rank_places_sort_key)
qed

theorem rank_places_unique_witness:
  "[\<lparr>place_id = 1, place_type = ''hospital'', place_name = ''A'', place_lat = Some 1,
        place_lon = Some 2, place_tags = []\<rparr>] =
   rank_places 0 0 [\<lparr>place_id = 1, place_type = ''hospital'', place_name = ''A'', place_lat = Some 1,
        place_lon = Some 2, place_tags = []\<rparr>]"
proof -
  let ?p = "\<lparr>place_id = 1, place_type = ''hospital'', place_name = ''A'', place_lat = Some 1,
        place_lon = Some 2, place_tags = []\<rparr> :: place"
  have h: "\<forall>p \<in> set [?p]. place_dist 0 0 p \<noteq> None"
    by (simp add: place_dist_def distanceMeters_Some)
  show ?thesis
    by (rule rank_places_unique [OF h]) simp_all
qed

end
