(* ===== verification/AlertServer.thy ===== *)
theory AlertServer
  imports Prelude
begin

text \<open>
  The alert endpoint, \<open>POST /api/send-alert\<close> of \<open>src/healthser.js\<close>. The
  state is the file \<open>alerts.json\<close>: absent, present but not JSON
  (\<open>JSON.parse\<close> throws), or holding a JSON value. The handler builds the
  alert \<open>{timestamp, ...req.body}\<close>, reads the array of earlier alerts (an
  absent or unparsable file counts as \<open>[]\<close>), pushes the alert and writes
  the array back. When the file holds JSON that is not an array,
  \<open>arr.push\<close> throws a \<open>TypeError\<close>; the handler has no \<open>catch\<close> around
  it, so Express answers 500 and nothing is written. The request body is the
  object \<open>express.json()\<close> parsed, as an association list; the time
  \<open>new Date().toISOString()\<close> is an argument of the handler. The
  \<open>console.log\<close> calls only print and are not modelled. Node runs the
  handler to completion before the next request (the file calls are
  synchronous), so a sequence of requests is a sequence of handler runs.
\<close>

section \<open>Definitions\<close>

datatype alerts_file = NoFile | Unparsable | Stored json

datatype server_error = PushTypeError

text \<open>\<open>{ timestamp: now, ...body }\<close>: the body's properties are assigned in
  order after \<open>timestamp\<close>.\<close>

definition alert_obj :: "string \<Rightarrow> (string \<times> json) list \<Rightarrow> (string \<times> json) list" where
  "alert_obj now body = fold (\<lambda>(k, v) acc. obj_set k v acc) body [(''timestamp'', JStr now)]"

text \<open>\<open>let arr = []; if (exists) { try { arr = JSON.parse(raw) } catch { arr = [] } }\<close>.\<close>

definition read_alerts :: "alerts_file \<Rightarrow> json" where
  "read_alerts f = (case f of NoFile \<Rightarrow> JArr [] | Unparsable \<Rightarrow> JArr [] | Stored v \<Rightarrow> v)"

text \<open>\<open>arr.push(alert)\<close>: only an array has \<open>push\<close>.\<close>

definition js_push :: "json \<Rightarrow> json \<Rightarrow> server_error + json" where
  "js_push arr x = (case arr of JArr xs \<Rightarrow> Inr (JArr (xs @ [x])) | _ \<Rightarrow> Inl PushTypeError)"

definition ok_reply :: json where
  "ok_reply = JObj [(''status'', JStr ''ok''), (''message'', JStr ''Alert received on server'')]"

definition send_alert ::
  "string \<Rightarrow> (string \<times> json) list \<Rightarrow> alerts_file \<Rightarrow> server_error + (alerts_file \<times> json)" where
  "send_alert now body f =
     (let alert = JObj (alert_obj now body)
      in case js_push (read_alerts f) alert of
           Inl e \<Rightarrow> Inl e
         | Inr arr \<Rightarrow> Inr (Stored arr, ok_reply))"

text \<open>Express's answer: the handler's reply with status 200, or status 500 and
  the file unchanged when the handler throws.\<close>

definition express_send_alert ::
  "string \<Rightarrow> (string \<times> json) list \<Rightarrow> alerts_file \<Rightarrow> alerts_file \<times> nat \<times> json option" where
  "express_send_alert now body f =
     (case send_alert now body f of
        Inl _ \<Rightarrow> (f, 500, None)
      | Inr (f', reply) \<Rightarrow> (f', 200, Some reply))"

text \<open>A sequence of requests, each with its time and body.\<close>

fun serve :: "(string \<times> (string \<times> json) list) list \<Rightarrow> alerts_file \<Rightarrow> alerts_file" where
  "serve [] f = f"
| "serve ((now, body) # rs) f = serve rs (fst (express_send_alert now body f))"

section \<open>Lemmas\<close>

lemma fold_obj_set_map_of:
  "map_of (fold (\<lambda>(k, v) acc. obj_set k v acc) body acc) = map_of acc ++ map_of (rev body)"
  by (induction body arbitrary: acc) (auto simp: map_add_def fun_eq_iff split: option.split)

lemma send_alert_array:
  "f = Stored (JArr xs) \<or> f = NoFile \<or> f = Unparsable \<Longrightarrow>
     send_alert now body f =
       Inr (Stored (JArr ((case f of Stored (JArr ys) \<Rightarrow> ys | _ \<Rightarrow> []) @ [JObj (alert_obj now body)])),
            ok_reply)"
  by (auto simp: send_alert_def read_alerts_def js_push_def)

lemma serve_Stored:
  "serve rs (Stored (JArr xs)) =
     Stored (JArr (xs @ map (\<lambda>(now, body). JObj (alert_obj now body)) rs))"
proof (induction rs arbitrary: xs)
  case Nil
  then show ?case by simp
next
  case (Cons r rs)
  obtain now body where r: "r = (now, body)" by fastforce
  from Cons.IH [of "xs @ [JObj (alert_obj now body)]"] show ?case
    by (simp add: r express_send_alert_def send_alert_array)
qed

lemma serve_NoFile:
  assumes "rs \<noteq> []"
  shows "serve rs NoFile = Stored (JArr (map (\<lambda>(now, body). JObj (alert_obj now body)) rs))"
proof -
  obtain now body rs' where "rs = (now, body) # rs'"
    using assms by (metis list.exhaust surj_pair)
  then show ?thesis by (simp add: express_send_alert_def send_alert_array serve_Stored)
qed


section \<open>Properties of the alert endpoint\<close>

text \<open>
  Claim C15. Starting without \<open>alerts.json\<close>, after any non-empty
  sequence of requests the file holds exactly the array of their alerts, in
  the order the requests arrived: the endpoint is an append-only log.
\<close>

theorem serve_log:
  "serve rs NoFile =
     (if rs = [] then NoFile
      else Stored (JArr (map (\<lambda>(now, body). JObj (alert_obj now body)) rs)))"
  by (simp add: serve_NoFile)

text \<open>
  Claim C21. When \<open>alerts.json\<close> exists but is not JSON, a request
  succeeds and replaces the file by an array holding only the new alert: every
  earlier alert is silently discarded.
\<close>

theorem send_alert_unparsable:
  "express_send_alert now body Unparsable =
     (Stored (JArr [JObj (alert_obj now body)]), 200, Some ok_reply)"
  by (simp add: express_send_alert_def send_alert_array)

text \<open>
  Claim C22. When \<open>alerts.json\<close> holds JSON that is not an array,
  \<open>arr.push\<close> throws: the request fails with status 500 and the file is
  left as it was.
\<close>

theorem send_alert_not_array:
  "(\<forall>xs. v \<noteq> JArr xs) \<Longrightarrow> express_send_alert now body (Stored v) = (Stored v, 500, None)"
  by (cases v) (simp_all add: express_send_alert_def send_alert_def read_alerts_def js_push_def)

theorem send_alert_not_array_witness:
  "express_send_alert ''2025-01-01T00:00:00.000Z'' [(''note'', JStr ''x'')] (Stored (JObj [])) =
     (Stored (JObj []), 500, None)"
  by (rule send_alert_not_array) simp

text \<open>
  Claim C32. The stored alert has every property of the request
  body, and the server's \<open>timestamp\<close> only where the body has none: a
  top-level \<open>timestamp\<close> sent by the client replaces the server's time.
\<close>

theorem alert_obj_props:
  "map_of (alert_obj now body) = [''timestamp'' \<mapsto> JStr now] ++ map_of (rev body)"
  by (simp add: alert_obj_def fold_obj_set_map_of)


end
