(* ===== verification/App.thy ===== *)
theory App
  imports Ranking
begin

text \<open>
  The page controller of \<open>src/health.js\<close>: the global state (\<open>userLatLng\<close>,
  the user marker, the place markers, the location text and the list) and the
  handlers that change it: \<open>detectLocationAndShow\<close> with its geolocation
  callbacks, the refresh and panic buttons, \<open>findNearbyPlaces\<close> and the
  "Send to nearest" buttons of the list.

  The handlers are \<open>async\<close>: each \<open>await queryOverpass(...)\<close> splits a handler
  in two. The first half runs when the event happens and issues a request,
  recorded in \<open>inflight\<close> with a fresh number; the second half runs when the
  event \<open>QueryReturns n r t\<close> delivers the service's answer \<open>r\<close> to request
  \<open>n\<close> (at time \<open>t\<close>). Answers may come in any order, which is how the
  browser interleaves overlapping requests. The page is a deterministic step
  function over events; the environment's choices (geolocation result, which
  request is answered, the answer, the time) are the events' arguments.

  Alert payloads posted to \<open>/api/send-alert\<close> are collected in \<open>posted\<close> as
  JSON; \<open>window.alert\<close> messages in \<open>dialogs\<close>. The replies of the alert
  server only produce dialogs and are not modelled; Leaflet calls are
  reduced to the marker state they leave (\<open>user_marker\<close>, \<open>place_markers\<close>).
  The text written into the page is kept as the data it shows.

  The second part proves properties of every run from the initial page, by
  \<open>run_invariant\<close> and one preservation lemma per invariant (\<open>panic_ok\<close>,
  \<open>list_ok\<close>, \<open>payloads_ok\<close>, \<open>inflight_ok\<close>, \<open>search_pending\<close>),
  and exhibits concrete runs for the behaviours the code allows (a stale
  list, accumulating requests).
\<close>

section \<open>State and events\<close>

datatype loc_status = LocBlank | Detecting | GeoUnsupported | Located real real real | LocDenied

text \<open>The list element: items are the ranked places with their rounded
  distances (\<open>None\<close> would be \<open>NaN\<close>); the first is the one marked
  "(Nearest)". \<open>Listed\<close> records the position \<open>findNearbyPlaces\<close> was called
  with, which the item buttons send.\<close>

datatype list_view =
    ListBlank
  | Searching
  | NoneFound
  | Listed real real "(place \<times> int option) list"

datatype query_kind = NearbyQ | PanicQ

record request =
  rq_kind :: query_kind
  rq_lat :: real
  rq_lon :: real
  rq_radius :: real
  rq_types :: "string list"

record page =
  userLatLng :: "(real \<times> real) option"
  loc :: loc_status
  geo_waiting :: nat
  user_marker :: "(real \<times> real) option"
  place_markers :: "place list"
  list_view :: list_view
  inflight :: "(nat \<times> request) list"
  next_req :: nat
  posted :: "json list"
  dialogs :: "string list"

datatype event =
    PageLoad bool
  | GeoSuccess real real real
  | GeoError
  | RefreshClick bool
  | PanicClick
  | QueryReturns nat response string
  | ItemClick nat string

definition init_page :: page where
  "init_page =
     \<lparr>userLatLng = None, loc = LocBlank, geo_waiting = 0, user_marker = None,
      place_markers = [], list_view = ListBlank, inflight = [], next_req = 0,
      posted = [], dialogs = []\<rparr>"

section \<open>JSON of the payloads\<close>

text \<open>\<open>JSON.stringify\<close> of a place or of an annotated place: the properties in
  the order of the object literal; an undefined number is left out.\<close>

definition num_prop :: "string \<Rightarrow> jsnum \<Rightarrow> (string \<times> json) list" where
  "num_prop k x = (case x of None \<Rightarrow> [] | Some r \<Rightarrow> [(k, JNum r)])"

definition place_props :: "'a place_scheme \<Rightarrow> (string \<times> json) list" where
  "place_props p =
     [(''id'', JNum (of_int (place_id p))), (''type'', JStr (place_type p)),
      (''name'', JStr (place_name p))]
     @ num_prop ''lat'' (place_lat p) @ num_prop ''lon'' (place_lon p)
     @ [(''tags'', JObj (map (\<lambda>(k, v). (k, JStr v)) (place_tags p)))]"

definition annotated_json :: "annotated_place \<Rightarrow> json" where
  "annotated_json a = JObj (place_props a @ [(''distance_m'', JNum (of_int (distance_m a)))])"

definition panic_note :: string where
  "panic_note = ''Panic button pressed - demo alert''"

definition item_note :: string where
  "item_note = ''Manual send of nearest place via list button''"

definition payload :: "real \<Rightarrow> real \<Rightarrow> string \<Rightarrow> json \<Rightarrow> string \<Rightarrow> json" where
  "payload lat lon now nearest note =
     JObj [(''user'', JObj [(''lat'', JNum lat), (''lon'', JNum lon), (''timestamp'', JStr now)]),
           (''nearest_place'', nearest), (''note'', JStr note)]"

section \<open>Handlers\<close>

text \<open>\<open>userLatLng = { lat, lng }\<close> as the object \<open>findNearestPlace\<close> receives.\<close>

definition latlng_obj :: "real \<Rightarrow> real \<Rightarrow> (string \<rightharpoonup> real)" where
  "latlng_obj lat lng = [''lat'' \<mapsto> lat, ''lng'' \<mapsto> lng]"

definition no_location_msg :: string where
  "no_location_msg = ''Cannot find your location. Please allow location access and try again.''"

definition issue :: "request \<Rightarrow> page \<Rightarrow> page" where
  "issue rq s = s\<lparr>inflight := inflight s @ [(next_req s, rq)], next_req := Suc (next_req s)\<rparr>"

definition nearby_request :: "real \<Rightarrow> real \<Rightarrow> request" where
  "nearby_request lat lon =
     \<lparr>rq_kind = NearbyQ, rq_lat = lat, rq_lon = lon, rq_radius = 3000,
      rq_types = [''hospital'', ''clinic'', ''pharmacy'']\<rparr>"

definition panic_request :: "real \<Rightarrow> real \<Rightarrow> request" where
  "panic_request lat lng =
     \<lparr>rq_kind = PanicQ, rq_lat = lat, rq_lon = lng, rq_radius = 2000,
      rq_types = [''hospital'', ''pharmacy'', ''clinic'']\<rparr>"

text \<open>\<open>detectLocationAndShow\<close> up to the \<open>getCurrentPosition\<close> call.\<close>

definition detectLocationAndShow :: "bool \<Rightarrow> page \<Rightarrow> page" where
  "detectLocationAndShow has_geo s =
     (if \<not> has_geo then s\<lparr>loc := GeoUnsupported\<rparr>
      else s\<lparr>loc := Detecting, geo_waiting := Suc (geo_waiting s)\<rparr>)"

text \<open>\<open>findNearbyPlaces\<close> up to its \<open>await\<close>, and after it.\<close>

definition findNearbyPlaces_start :: "real \<Rightarrow> real \<Rightarrow> page \<Rightarrow> page" where
  "findNearbyPlaces_start lat lon s = issue (nearby_request lat lon) (s\<lparr>list_view := Searching\<rparr>)"

definition findNearbyPlaces_finish :: "real \<Rightarrow> real \<Rightarrow> place list \<Rightarrow> page \<Rightarrow> page" where
  "findNearbyPlaces_finish lat lon places s =
     (if places = [] then s\<lparr>place_markers := [], list_view := NoneFound\<rparr>
      else
        (let ranked = rank_places lat lon places
         in s\<lparr>place_markers := ranked,
              list_view := Listed lat lon
                (map (\<lambda>p. (p, map_option math_round (place_dist lat lon p))) ranked)\<rparr>))"

text \<open>The geolocation success callback: store the position, move the user
  marker, then \<open>findNearbyPlaces(lat, lng)\<close>.\<close>

definition geo_success :: "real \<Rightarrow> real \<Rightarrow> real \<Rightarrow> page \<Rightarrow> page" where
  "geo_success lat lng acc s =
     findNearbyPlaces_start lat lng
       (s\<lparr>userLatLng := Some (lat, lng), loc := Located lat lng acc,
          geo_waiting := geo_waiting s - 1, user_marker := Some (lat, lng)\<rparr>)"

definition refresh_click :: "bool \<Rightarrow> page \<Rightarrow> page" where
  "refresh_click has_geo s =
     (case userLatLng s of
        Some (lat, lng) \<Rightarrow> findNearbyPlaces_start lat lng s
      | None \<Rightarrow> detectLocationAndShow has_geo s)"

text \<open>The panic handler up to its \<open>await\<close>, and after it: the nearest place
  is computed from the position stored at that moment.\<close>

definition panic_click :: "page \<Rightarrow> page" where
  "panic_click s =
     (case userLatLng s of
        None \<Rightarrow> s\<lparr>dialogs := dialogs s @ [no_location_msg]\<rparr>
      | Some (lat, lng) \<Rightarrow> issue (panic_request lat lng) s)"

definition panic_finish :: "place list \<Rightarrow> string \<Rightarrow> page \<Rightarrow> page" where
  "panic_finish places now s =
     (case userLatLng s of
        None \<Rightarrow> s
      | Some (lat, lng) \<Rightarrow>
          (let nearest = findNearestPlace (latlng_obj lat lng) places;
               np = (case nearest of None \<Rightarrow> JNull | Some a \<Rightarrow> annotated_json a)
           in s\<lparr>posted := posted s @ [payload lat lng now np panic_note]\<rparr>))"

text \<open>The "Send to nearest" button of list item \<open>i\<close>.\<close>

definition item_click :: "nat \<Rightarrow> string \<Rightarrow> page \<Rightarrow> page" where
  "item_click i now s =
     (case list_view s of
        Listed lat lon items \<Rightarrow>
          (if i < length items
           then s\<lparr>posted := posted s @ [payload lat lon now (JObj (place_props (fst (items ! i)))) item_note]\<rparr>
           else s)
      | _ \<Rightarrow> s)"

definition query_returns :: "nat \<Rightarrow> response \<Rightarrow> string \<Rightarrow> page \<Rightarrow> page" where
  "query_returns n r now s =
     (case map_of (inflight s) n of
        None \<Rightarrow> s
      | Some rq \<Rightarrow>
          (let s' = s\<lparr>inflight := filter (\<lambda>(m, _). m \<noteq> n) (inflight s)\<rparr>
           in case rq_kind rq of
                NearbyQ \<Rightarrow> findNearbyPlaces_finish (rq_lat rq) (rq_lon rq) (response_places r) s'
              | PanicQ \<Rightarrow> panic_finish (response_places r) now s'))"

fun step :: "page \<Rightarrow> event \<Rightarrow> page" where
  "step s (PageLoad has_geo) = detectLocationAndShow has_geo s"
| "step s (GeoSuccess lat lng acc) = (if geo_waiting s = 0 then s else geo_success lat lng acc s)"
| "step s GeoError = (if geo_waiting s = 0 then s else s\<lparr>loc := LocDenied, geo_waiting := geo_waiting s - 1\<rparr>)"
| "step s (RefreshClick has_geo) = refresh_click has_geo s"
| "step s PanicClick = panic_click s"
| "step s (QueryReturns n r now) = query_returns n r now s"
| "step s (ItemClick i now) = item_click i now s"

definition run :: "page \<Rightarrow> event list \<Rightarrow> page" where
  "run s es = fold (\<lambda>e s. step s e) es s"

section \<open>Invariants and properties of the page\<close>

text \<open>A property of a JSON object, \<open>v[k]\<close>.\<close>

definition json_field :: "json \<Rightarrow> string \<Rightarrow> json option" where
  "json_field v k = (case v of JObj ps \<Rightarrow> map_of ps k | _ \<Rightarrow> None)"

definition panic_ok :: "page \<Rightarrow> bool" where
  "panic_ok s \<longleftrightarrow>
     (\<forall>m \<in> set (posted s). json_field m ''note'' = Some (JStr panic_note) \<longrightarrow>
        json_field m ''nearest_place'' = Some JNull)"

definition list_ok :: "page \<Rightarrow> bool" where
  "list_ok s \<longleftrightarrow>
     (\<forall>lat lon items. list_view s = Listed lat lon items \<longrightarrow>
        (\<exists>ds. map snd items = map Some ds \<and> sorted ds))"

definition payloads_ok :: "page \<Rightarrow> bool" where
  "payloads_ok s \<longleftrightarrow>
     (\<forall>m \<in> set (posted s). \<exists>lat lon now np note. m = payload lat lon now np note)"

definition inflight_ok :: "page \<Rightarrow> bool" where
  "inflight_ok s \<longleftrightarrow> distinct (map fst (inflight s)) \<and> list_all (\<lambda>(n, _). n < next_req s) (inflight s)"

definition search_pending :: "page \<Rightarrow> bool" where
  "search_pending s \<longleftrightarrow>
     list_view s \<noteq> Searching \<or> list_ex (\<lambda>(_, rq). rq_kind rq = NearbyQ) (inflight s)"

lemma run_Cons [simp]: "run s (e # es) = run (step s e) es"
  by (simp add: run_def)

lemma run_Nil [simp]: "run s [] = s"
  by (simp add: run_def)

lemma run_append: "run s (es @ fs) = run (run s es) fs"
  by (simp add: run_def)

lemma run_invariant:
  assumes "P s" and "\<And>s e. P s \<Longrightarrow> P (step s e)"
  shows "P (run s es)"
  using assms(1) by (induction es arbitrary: s) (simp_all add: assms(2))

lemma payload_fields [simp]:
  "json_field (payload lat lon now np note) ''note'' = Some (JStr note)"
  "json_field (payload lat lon now np note) ''nearest_place'' = Some np"
  by (simp_all add: payload_def json_field_def)

lemma panic_finish_posts_null:
  "panic_finish places now s = s \<or>
   (\<exists>lat lng. panic_finish places now s =
      s\<lparr>posted := posted s @ [payload lat lng now JNull panic_note]\<rparr>)"
proof (cases "userLatLng s")
  case None
  then show ?thesis by (simp add: panic_finish_def)
next
  case (Some ll)
  obtain lat lng where ll: "ll = (lat, lng)" by fastforce
  have "findNearestPlace (latlng_obj lat lng) places = None"
    by (rule findNearestPlace_no_lon) (simp add: latlng_obj_def)
  with Some ll show ?thesis by (auto simp: panic_finish_def)
qed

lemma item_note_neq: "item_note \<noteq> panic_note"
  by (simp add: item_note_def panic_note_def)

lemma panic_ok_step: "panic_ok s \<Longrightarrow> panic_ok (step s e)"
proof (cases e)
  case (QueryReturns n r now)
  assume ok: "panic_ok s"
  show ?thesis
  proof (cases "map_of (inflight s) n")
    case None
    with ok QueryReturns show ?thesis by (simp add: query_returns_def)
  next
    case (Some rq)
    let ?s' = "s\<lparr>inflight := filter (\<lambda>(m, _). m \<noteq> n) (inflight s)\<rparr>"
    have ok': "panic_ok ?s'" using ok by (simp add: panic_ok_def)
    show ?thesis
    proof (cases "rq_kind rq")
      case NearbyQ
      with ok' Some QueryReturns show ?thesis
        by (simp add: query_returns_def findNearbyPlaces_finish_def Let_def panic_ok_def)
    next
      case PanicQ
      from panic_finish_posts_null [of "response_places r" now ?s'] ok'
      have "panic_ok (panic_finish (response_places r) now ?s')"
        by (auto simp: panic_ok_def)
      with PanicQ Some QueryReturns show ?thesis by (simp add: query_returns_def)
    qed
  qed
next
  case (ItemClick i now)
  assume ok: "panic_ok s"
  with ItemClick item_note_neq show ?thesis
    by (auto simp: item_click_def panic_ok_def split: list_view.split)
qed (auto simp: panic_ok_def detectLocationAndShow_def geo_success_def findNearbyPlaces_start_def
       issue_def refresh_click_def panic_click_def split: option.split)

lemma payloads_ok_step: "payloads_ok s \<Longrightarrow> payloads_ok (step s e)"
proof (cases e)
  case (QueryReturns n r now)
  assume ok: "payloads_ok s"
  then show ?thesis using QueryReturns
    by (auto simp: query_returns_def findNearbyPlaces_finish_def panic_finish_def Let_def payloads_ok_def
        split: option.split query_kind.split prod.split) blast+
next
  case (ItemClick i now)
  assume ok: "payloads_ok s"
  with ItemClick show ?thesis
    by (auto simp: item_click_def payloads_ok_def split: list_view.split) blast
qed (auto simp: payloads_ok_def detectLocationAndShow_def geo_success_def findNearbyPlaces_start_def
       issue_def refresh_click_def panic_click_def split: option.split)

lemma inflight_finish [simp]:
  "inflight (findNearbyPlaces_finish la lo ps s) = inflight s"
  "next_req (findNearbyPlaces_finish la lo ps s) = next_req s"
  "inflight (panic_finish ps now s) = inflight s"
  "next_req (panic_finish ps now s) = next_req s"
  by (simp_all add: findNearbyPlaces_finish_def panic_finish_def Let_def split: option.split prod.split)

lemma inflight_ok_issue: "inflight_ok s \<Longrightarrow> inflight_ok (issue rq s)"
  by (auto simp: inflight_ok_def issue_def list_all_iff)

lemma inflight_ok_filter:
  "inflight_ok s \<Longrightarrow> inflight_ok (s\<lparr>inflight := filter P (inflight s)\<rparr>)"
  by (auto simp: inflight_ok_def distinct_map_filter list_all_iff)

lemma inflight_ok_step: "inflight_ok s \<Longrightarrow> inflight_ok (step s e)"
proof (cases e)
  case (QueryReturns n r now)
  assume ok: "inflight_ok s"
  show ?thesis
  proof (cases "map_of (inflight s) n")
    case None
    with ok QueryReturns show ?thesis by (simp add: query_returns_def)
  next
    case (Some rq)
    let ?s' = "s\<lparr>inflight := filter (\<lambda>(m, _). m \<noteq> n) (inflight s)\<rparr>"
    have ok': "inflight_ok ?s'" using ok by (rule inflight_ok_filter)
    with Some QueryReturns show ?thesis
      by (simp add: query_returns_def Let_def inflight_ok_def split: query_kind.split)
  qed
qed (auto simp: inflight_ok_def list_all_iff detectLocationAndShow_def geo_success_def findNearbyPlaces_start_def
       issue_def refresh_click_def panic_click_def item_click_def split: option.split list_view.split)

lemma search_pending_step:
  assumes "search_pending s" and "inflight_ok s"
  shows "search_pending (step s e)"
proof (cases e)
  case (QueryReturns n r now)
  show ?thesis
  proof (cases "map_of (inflight s) n")
    case None
    with assms(1) QueryReturns show ?thesis by (simp add: query_returns_def)
  next
    case (Some rq)
    show ?thesis
    proof (cases "rq_kind rq")
      case NearbyQ
      with Some QueryReturns show ?thesis
        by (simp add: query_returns_def findNearbyPlaces_finish_def Let_def search_pending_def)
    next
      case PanicQ
      from Some have "(n, rq) \<in> set (inflight s)" by (rule map_of_SomeD)
      with assms(2) have "m = n \<Longrightarrow> (m, rq') \<in> set (inflight s) \<Longrightarrow> rq' = rq" for m rq'
        by (auto simp: inflight_ok_def dest: eq_key_imp_eq_value)
      with PanicQ have "(m, rq') \<in> set (inflight s) \<Longrightarrow> rq_kind rq' = NearbyQ \<Longrightarrow> m \<noteq> n" for m rq'
        by auto
      with assms(1) PanicQ Some QueryReturns show ?thesis
        by (auto simp: query_returns_def panic_finish_def Let_def search_pending_def list_ex_iff
            split: option.split)
    qed
  qed
qed (use assms in \<open>auto simp: search_pending_def list_ex_iff detectLocationAndShow_def geo_success_def
       findNearbyPlaces_start_def issue_def refresh_click_def panic_click_def item_click_def nearby_request_def
       panic_request_def split: option.split list_view.split\<close>)

lemma finish_not_searching [simp]:
  "list_view (findNearbyPlaces_finish la lo ps s) \<noteq> Searching"
  by (simp add: findNearbyPlaces_finish_def Let_def)

text \<open>
  Claim C3. In every run of the page from its initial state,
  every alert the panic button posts has \<open>nearest_place: null\<close>, whatever
  the geodata service answers: the handler hands \<open>findNearestPlace\<close> the
  object \<open>{lat, lng}\<close>, which has no \<open>lon\<close>.
\<close>

theorem panic_alerts_have_no_place:
  "m \<in> set (posted (run init_page es)) \<Longrightarrow> json_field m ''note'' = Some (JStr panic_note) \<Longrightarrow>
     json_field m ''nearest_place'' = Some JNull"
proof -
  have "panic_ok init_page" by (simp add: panic_ok_def init_page_def)
  then have "panic_ok (run init_page es)" by (rule run_invariant) (rule panic_ok_step)
  moreover assume "m \<in> set (posted (run init_page es))" "json_field m ''note'' = Some (JStr panic_note)"
  ultimately show ?thesis by (simp add: panic_ok_def)
qed

lemmas page_defs = init_page_def detectLocationAndShow_def geo_success_def findNearbyPlaces_start_def
  issue_def refresh_click_def panic_click_def panic_finish_def query_returns_def
  findNearbyPlaces_finish_def item_click_def nearby_request_def panic_request_def

lemmas response_defs = response_places_def has_coords_def to_place_def tag_def
  center_lat_def center_lon_def Let_def

theorem panic_alerts_have_no_place_witness:
  "payload 1 2 ''t'' JNull panic_note \<in> set (posted (run init_page
     [PageLoad True, GeoSuccess 1 2 5, PanicClick,
      QueryReturns 1 (Json (Some [\<lparr>el_id = 9, el_lat = Some 1, el_lon = Some 2, el_center = None, el_tags = None\<rparr>])) ''t''])) \<and>
   json_field (payload 1 2 ''t'' JNull panic_note) ''nearest_place'' = Some JNull"
proof -
  have p: "posted (run init_page
     [PageLoad True, GeoSuccess 1 2 5, PanicClick,
      QueryReturns 1 (Json (Some [\<lparr>el_id = 9, el_lat = Some 1, el_lon = Some 2, el_center = None, el_tags = None\<rparr>])) ''t'']) = [payload 1 2 ''t'' JNull panic_note]"
    by (simp add: page_defs response_defs findNearestPlace_def dist_to_def latlng_obj_def)
  have "json_field (payload 1 2 ''t'' JNull panic_note) ''note'' = Some (JStr panic_note)"
    by simp
  with p panic_alerts_have_no_place [of "payload 1 2 ''t'' JNull panic_note"] show ?thesis
    by simp
qed

text \<open>
  Claim C26. Pressing the panic button before a position is
  known shows the message "Cannot find your location..." and changes nothing
  else: no query is issued and no alert is posted.
\<close>

theorem panic_without_location:
  "userLatLng s = None \<Longrightarrow> step s PanicClick = s\<lparr>dialogs := dialogs s @ [no_location_msg]\<rparr>"
  by (simp add: panic_click_def)

theorem panic_without_location_witness:
  "step init_page PanicClick = init_page\<lparr>dialogs := [no_location_msg]\<rparr>"
  using panic_without_location [of init_page] by (simp add: init_page_def)

lemma sorted_map_math_round: "sorted xs \<Longrightarrow> sorted (map math_round xs)"
  by (induction xs) (auto simp: math_round_mono)

lemma finish_items_sorted:
  assumes "\<forall>p \<in> set places. has_coords p"
  shows "\<exists>ds. map snd (map (\<lambda>p. (p, map_option math_round (place_dist lat lon p)))
                    (rank_places lat lon places)) = map Some ds \<and> sorted ds"
proof -
  have d: "\<forall>p \<in> set places. place_dist lat lon p \<noteq> None"
    using assms by (auto simp: has_coords_iff place_dist_def distanceMeters_Some)
  let ?r = "sort_key (dkey lat lon) places"
  have "\<forall>p \<in> set ?r. map_option math_round (place_dist lat lon p) = Some (math_round (dkey lat lon p))"
    using d by (simp add: place_dist_dkey)
  then have "map (\<lambda>p. map_option math_round (place_dist lat lon p)) ?r =
             map (\<lambda>p. Some (math_round (dkey lat lon p))) ?r"
    by (intro map_cong) auto
  then have m: "map snd (map (\<lambda>p. (p, map_option math_round (place_dist lat lon p))) ?r) =
             map Some (map (\<lambda>p. math_round (dkey lat lon p)) ?r)"
    by simp
  have so: "sorted (map (\<lambda>p. math_round (dkey lat lon p)) ?r)"
    using sorted_map_math_round [of "map (dkey lat lon) ?r"] by (simp add: comp_def)
  have r: "rank_places lat lon places = ?r" using d by (rule rank_places_sort_key)
  show ?thesis unfolding r using m so by blast
qed

lemma list_ok_step: "list_ok s \<Longrightarrow> list_ok (step s e)"
proof (cases e)
  case (QueryReturns n r now)
  assume ok: "list_ok s"
  have fin: "list_ok (findNearbyPlaces_finish lat lon (response_places r) t)" for lat lon t
    using finish_items_sorted [of "response_places r" lat lon] response_places_has_coords [of _ r]
    by (auto simp: list_ok_def findNearbyPlaces_finish_def Let_def)
  have pf: "list_view (panic_finish ps now t) = list_view t" for ps t
    by (simp add: panic_finish_def Let_def split: option.split prod.split)
  from ok fin pf QueryReturns show ?thesis
    by (auto simp: query_returns_def list_ok_def Let_def split: option.split query_kind.split)
qed (auto simp: list_ok_def page_defs split: option.split list_view.split)

text \<open>
  Claim C10. In every run of the page, whenever the list shows
  places, every shown distance is a number and the distances are in
  non-decreasing order.
\<close>

theorem listed_distances_sorted:
  "list_view (run init_page es) = Listed lat lon items \<Longrightarrow>
     \<exists>ds. map snd items = map Some ds \<and> sorted ds"
proof -
  have "list_ok init_page" by (simp add: list_ok_def init_page_def)
  then have "list_ok (run init_page es)" by (rule run_invariant) (rule list_ok_step)
  moreover assume "list_view (run init_page es) = Listed lat lon items"
  ultimately show ?thesis by (simp add: list_ok_def)
qed

theorem listed_distances_sorted_witness:
  "list_view (run init_page [PageLoad True, GeoSuccess 1 2 5,
      QueryReturns 0 (Json (Some [\<lparr>el_id = 9, el_lat = Some 1, el_lon = Some 2, el_center = None, el_tags = None\<rparr>])) ''t'']) =
     Listed 1 2 [(to_place \<lparr>el_id = 9, el_lat = Some 1, el_lon = Some 2, el_center = None, el_tags = None\<rparr>, Some (math_round (2 * earth_R * arcsin (sqrt (hav 1 2 1 2)))))] \<and>
   (\<exists>ds. map snd [(to_place \<lparr>el_id = 9, el_lat = Some 1, el_lon = Some 2, el_center = None, el_tags = None\<rparr>, Some (math_round (2 * earth_R * arcsin (sqrt (hav 1 2 1 2)))))] =
      map Some ds \<and> sorted ds)"
proof -
  have l: "list_view (run init_page [PageLoad True, GeoSuccess 1 2 5,
      QueryReturns 0 (Json (Some [\<lparr>el_id = 9, el_lat = Some 1, el_lon = Some 2, el_center = None, el_tags = None\<rparr>])) ''t'']) =
     Listed 1 2 [(to_place \<lparr>el_id = 9, el_lat = Some 1, el_lon = Some 2, el_center = None, el_tags = None\<rparr>, Some (math_round (2 * earth_R * arcsin (sqrt (hav 1 2 1 2)))))]"
    by (simp add: page_defs response_places_def has_coords_def rank_places_def array_sort_def
        place_dist_def distanceMeters_Some to_place_def tag_def center_lat_def center_lon_def)
  from listed_distances_sorted [OF l] l show ?thesis by simp
qed

text \<open>
  Claim C20. The last answer to arrive wins, not the last request: there
  is a run in which the list shows the places around an earlier position
  while the page already holds a newer one (two geolocation fixes whose
  queries are answered in reverse order).
\<close>

theorem stale_list_possible:
  "\<exists>es la lo items. list_view (run init_page es) = Listed la lo items \<and>
      userLatLng (run init_page es) \<noteq> Some (la, lo)"
proof -
  let ?r = "Json (Some [\<lparr>el_id = 9, el_lat = Some 1, el_lon = Some 2, el_center = None, el_tags = None\<rparr>])"
  let ?es = "[PageLoad True, RefreshClick True, GeoSuccess 1 2 5, GeoSuccess 3 4 5,
              QueryReturns 1 ?r ''t1'', QueryReturns 0 ?r ''t2'']"
  have "userLatLng (run init_page ?es) = Some (3, 4)"
    by (simp add: page_defs response_defs)
  moreover have "\<exists>items. list_view (run init_page ?es) = Listed 1 2 items"
    by (simp add: page_defs response_defs)
  ultimately show ?thesis by fastforce
qed

text \<open>
  Claim C27. Overlapping refreshes are not deduplicated: with a
  known position, \<open>n\<close> clicks on refresh put \<open>n\<close> more queries in flight.
\<close>

theorem refresh_requests_accumulate:
  "userLatLng s = Some (la, lo) \<Longrightarrow>
     length (inflight (run s (replicate n (RefreshClick b)))) = length (inflight s) + n"
proof (induction n arbitrary: s)
  case 0
  then show ?case by simp
next
  case (Suc n)
  let ?t = "step s (RefreshClick b)"
  have "userLatLng ?t = Some (la, lo)" "length (inflight ?t) = Suc (length (inflight s))"
    using Suc.prems by (simp_all add: refresh_click_def findNearbyPlaces_start_def issue_def)
  with Suc.IH [of ?t] show ?case by simp
qed

theorem refresh_requests_accumulate_witness:
  "length (inflight (run (init_page\<lparr>userLatLng := Some (1, 2)\<rparr>) (replicate 3 (RefreshClick True)))) = 3"
  using refresh_requests_accumulate [of "init_page\<lparr>userLatLng := Some (1, 2)\<rparr>" 1 2 3 True]
  by (simp add: init_page_def)

text \<open>
  Claim C19. The list never stays "Searching" for good: in
  every run where it shows "Searching", a nearby request is in flight, and
  its answer, whatever it is, replaces the message by a list or by "No
  nearby places found".
\<close>

theorem search_ends:
  assumes "list_view (run init_page es) = Searching"
  shows "\<exists>n. \<forall>r t. list_view (run init_page (es @ [QueryReturns n r t])) \<noteq> Searching"
proof -
  let ?s = "run init_page es"
  have "search_pending init_page \<and> inflight_ok init_page"
    by (simp add: search_pending_def inflight_ok_def init_page_def)
  then have inv: "search_pending ?s \<and> inflight_ok ?s"
    by (rule run_invariant) (simp add: search_pending_step inflight_ok_step)
  with assms obtain n rq where n: "(n, rq) \<in> set (inflight ?s)" and k: "rq_kind rq = NearbyQ"
    by (auto simp: search_pending_def list_ex_iff)
  from inv n have "map_of (inflight ?s) n = Some rq"
    by (intro map_of_is_SomeI) (simp_all add: inflight_ok_def)
  with k have "list_view (step ?s (QueryReturns n r t)) \<noteq> Searching" for r t
    by (simp add: query_returns_def Let_def)
  then show ?thesis by (auto simp: run_append)
qed

theorem search_ends_witness:
  "list_view (run init_page [PageLoad True, GeoSuccess 1 2 5]) = Searching \<and>
   (\<exists>n. \<forall>r t. list_view (run init_page ([PageLoad True, GeoSuccess 1 2 5] @ [QueryReturns n r t]))
      \<noteq> Searching)"
proof -
  have s: "list_view (run init_page [PageLoad True, GeoSuccess 1 2 5]) = Searching"
    by (simp add: page_defs)
  from search_ends [OF s] s show ?thesis by blast
qed

end
