(* ===== verification/Itinerary.thy ===== *)
theory Itinerary
  imports Prelude
begin

text \<open>
  The mood-based itinerary feature: the route \<open>POST /get-itinerary\<close> of
  \<open>src/server.js\<close> and the click handler of \<open>#generateBtn\<close> in
  \<open>src/script1.js\<close> that calls it. The text-generation service is the
  environment: a function from the user prompt to its outcome (a failure, or
  the list of \<open>choices\<close> with each choice's \<open>message.content\<close>, \<open>None\<close>
  for \<open>null\<close>); the system prompt and the model name are constants of the
  request and are not represented. \<open>express.json()\<close> in its default strict
  mode delivers an object or an array as \<open>req.body\<close>; the client's body is
  \<open>JSON.stringify({ mood })\<close> of the input's string value, which the server
  parses back to the object \<open>{mood}\<close>. The \<open>/ping\<close> route, the static files
  and \<open>console\<close> output are not modelled.
\<close>

section \<open>Definitions\<close>

text \<open>\<open>String(v)\<close> of a JSON value, as a template literal \<open>${v}\<close> computes
  it: arrays join their elements with commas (\<open>null\<close> elements print as the
  empty string); the text of a number is the argument \<open>ns\<close>.\<close>

fun js_to_string :: "(real \<Rightarrow> string) \<Rightarrow> json \<Rightarrow> string"
and js_join :: "(real \<Rightarrow> string) \<Rightarrow> json list \<Rightarrow> string" where
  "js_to_string ns JNull = ''null''"
| "js_to_string ns (JBool b) = (if b then ''true'' else ''false'')"
| "js_to_string ns (JNum r) = ns r"
| "js_to_string ns (JStr s) = s"
| "js_to_string ns (JArr xs) = js_join ns xs"
| "js_to_string ns (JObj ps) = ''[object Object]''"
| "js_join ns [] = []"
| "js_join ns [x] = (if x = JNull then [] else js_to_string ns x)"
| "js_join ns (x # y # ys) =
     (if x = JNull then [] else js_to_string ns x) @ '','' @ js_join ns (y # ys)"

datatype api_outcome = ApiFailure | ApiCompletion "string option list"

text \<open>\<open>const { mood } = req.body\<close>: a property of an object body; an array
  has no \<open>mood\<close>.\<close>

definition body_mood :: "json \<Rightarrow> json option" where
  "body_mood b = (case b of JObj ps \<Rightarrow> map_of ps ''mood'' | _ \<Rightarrow> None)"

definition user_prompt :: "string \<Rightarrow> string" where
  "user_prompt m =
     ''Create a one-day itinerary for someone feeling '' @ m @ ''. Keep it short and actionable.''"

definition error_body :: "string \<Rightarrow> json" where
  "error_body msg = JObj [(''error'', JStr msg)]"

text \<open>The route handler: the status and the JSON body of the response. An
  empty \<open>choices\<close> array makes \<open>response.choices[0].message\<close> throw inside the
  \<open>try\<close>, which answers 500 like a failed call.\<close>

definition get_itinerary ::
  "(string \<Rightarrow> api_outcome) \<Rightarrow> (real \<Rightarrow> string) \<Rightarrow> json \<Rightarrow> nat \<times> json" where
  "get_itinerary api ns body =
     (case body_mood body of
        None \<Rightarrow> (400, error_body ''Mood is required'')
      | Some m \<Rightarrow>
          (if \<not> js_truthy_json (Some m) then (400, error_body ''Mood is required'')
           else (case api (user_prompt (js_to_string ns m)) of
                   ApiFailure \<Rightarrow> (500, error_body ''Failed to generate itinerary'')
                 | ApiCompletion [] \<Rightarrow> (500, error_body ''Failed to generate itinerary'')
                 | ApiCompletion (c # cs) \<Rightarrow>
                     (200, JObj [(''itinerary'', case c of Some t \<Rightarrow> JStr t | None \<Rightarrow> JNull)]))))"

datatype fetch_outcome = FetchRejected | ResponseNotJson | Response json

definition no_itinerary_msg :: string where
  "no_itinerary_msg = ''No itinerary returned.''"

definition fetch_error_msg :: string where
  "fetch_error_msg = ''Error fetching itinerary.''"

text \<open>The client after \<open>fetch\<close>: the text written into \<open>#result\<close>.
  \<open>fetch\<close> rejects only on a network failure, \<open>response.json()\<close> on a body
  that is not JSON, and \<open>data.itinerary\<close> throws when \<open>data\<close> is \<open>null\<close>; all
  three land in the \<open>catch\<close>. The HTTP status is not looked at.\<close>

definition itinerary_display :: "(real \<Rightarrow> string) \<Rightarrow> fetch_outcome \<Rightarrow> string" where
  "itinerary_display ns r =
     (case r of
        FetchRejected \<Rightarrow> fetch_error_msg
      | ResponseNotJson \<Rightarrow> fetch_error_msg
      | Response JNull \<Rightarrow> fetch_error_msg
      | Response (JObj ps) \<Rightarrow>
          (case map_of ps ''itinerary'' of
             Some v \<Rightarrow> if js_truthy_json (Some v) then js_to_string ns v else no_itinerary_msg
           | None \<Rightarrow> no_itinerary_msg)
      | Response _ \<Rightarrow> no_itinerary_msg)"

text \<open>A click on \<open>#generateBtn\<close> with the input's text \<open>mood\<close> when the server
  is reached: the client's request, the route, and the display of its answer.\<close>

definition itinerary_click :: "(string \<Rightarrow> api_outcome) \<Rightarrow> (real \<Rightarrow> string) \<Rightarrow> string \<Rightarrow> string" where
  "itinerary_click api ns mood =
     itinerary_display ns (Response (snd (get_itinerary api ns (JObj [(''mood'', JStr mood)]))))"

section \<open>Lemmas\<close>

lemma get_itinerary_mood [simp]:
  "get_itinerary api ns (JObj [(''mood'', JStr mood)]) =
     (if mood = [] then (400, error_body ''Mood is required'')
      else (case api (user_prompt mood) of
              ApiFailure \<Rightarrow> (500, error_body ''Failed to generate itinerary'')
            | ApiCompletion [] \<Rightarrow> (500, error_body ''Failed to generate itinerary'')
            | ApiCompletion (c # cs) \<Rightarrow>
                (200, JObj [(''itinerary'', case c of Some t \<Rightarrow> JStr t | None \<Rightarrow> JNull)])))"
  by (simp add: get_itinerary_def body_mood_def)

lemma display_error_body [simp]: "itinerary_display ns (Response (error_body msg)) = no_itinerary_msg"
  by (simp add: itinerary_display_def error_body_def)

section \<open>Properties of the itinerary feature\<close>

text \<open>
  Claim C33. The route answers 400 exactly when the body has no
  truthy \<open>mood\<close>: absent, \<open>null\<close>, \<open>false\<close>, \<open>0\<close> or the empty string.
\<close>

theorem get_itinerary_400_iff:
  "fst (get_itinerary api ns body) = 400 \<longleftrightarrow> \<not> js_truthy_json (body_mood body)"
  by (auto simp: get_itinerary_def split: option.split api_outcome.split list.split)

text \<open>
  Claim C34. With a non-empty mood and a service answer whose first
  choice has a non-empty content, the page shows exactly that content.
\<close>

theorem itinerary_click_success:
  "mood \<noteq> [] \<Longrightarrow> api (user_prompt mood) = ApiCompletion (Some c # cs) \<Longrightarrow> c \<noteq> [] \<Longrightarrow>
     itinerary_click api ns mood = c"
  by (simp add: itinerary_click_def itinerary_display_def)

theorem itinerary_click_success_witness:
  "itinerary_click (\<lambda>p. ApiCompletion [Some ''Walk in the park'']) (\<lambda>r. ''0'') ''calm'' =
     ''Walk in the park''"
  by (rule itinerary_click_success) simp_all

text \<open>
  Claim C28. Whenever the route does not answer 200 (no mood, a
  failed service call, no choices), the page shows "No itinerary returned."
  and not the error: the client ignores the status and reads
  \<open>data.itinerary\<close> of the error body.
\<close>

theorem itinerary_click_server_error:
  "fst (get_itinerary api ns (JObj [(''mood'', JStr mood)])) \<noteq> 200 \<Longrightarrow>
     itinerary_click api ns mood = no_itinerary_msg"
  by (auto simp: itinerary_click_def split: if_splits api_outcome.splits list.splits)

theorem itinerary_click_server_error_witness:
  "itinerary_click (\<lambda>p. ApiFailure) (\<lambda>r. ''0'') ''calm'' = no_itinerary_msg"
  by (rule itinerary_click_server_error) simp

end
