(* ===== verification/Spec2Isabelle.thy ===== *)
theory Spec2Isabelle
  imports Distance Overpass Nearest Ranking AlertServer App Itinerary
begin

text \<open>
  \<^bold>\<open>A verification development for Tour-AI's nearest-facility pipeline.\<close>

  \<^bold>\<open>The program.\<close> \<open>src/health.js\<close> is a browser script behind a "panic
  button": it reads the user's position, asks the Overpass geodata service for
  hospitals, clinics and pharmacies around it, lists them by distance and,
  when the panic button is pressed, posts the nearest one to the alert
  endpoint of \<open>src/healthser.js\<close>. The pipeline is
  \<open>queryOverpass\<close> (query text, fetch, normalisation of the elements into
  places) \<open>\<rightarrow>\<close> \<open>findNearestPlace\<close> (panic handler) or \<open>places.sort\<close>
  (list in \<open>findNearbyPlaces\<close>), both over \<open>distanceMeters\<close>.
  \<open>src/server.js\<close> and \<open>src/script1.js\<close> are an unrelated itinerary feature.

  \<^bold>\<open>Theories.\<close>
  \<^item> \<open>Prelude\<close>: the JavaScript value model. A number read from a
    property is \<open>jsnum = real option\<close>, \<open>None\<close> standing for both
    \<open>undefined\<close> and \<open>NaN\<close> (arithmetic turns the first into the second);
    truthiness, \<open>||\<close> and \<open>Math.round\<close> are written out; JSON values are a
    datatype with objects as association lists.
  \<^item> \<open>Distance\<close>: \<open>distanceMeters\<close> (health.js 121--129) over exact reals,
    with \<open>Math.sqrt\<close> of a negative number and every undefined argument as
    \<open>NaN\<close>. Lemmas: the haversine term lies in \<open>[0, 1]\<close> for all reals, so
    the result is \<open>2 R arcsin (sqrt h)\<close>; symmetry, zero, the exact
    values along a meridian and a parallel, the bound by the sum of the
    separations, and the spec's one-degree test via bounds on \<open>pi\<close> from
    Machin's formula.
  \<^item> \<open>Overpass\<close>: records \<open>element\<close>, \<open>center\<close>, \<open>place\<close>, the
    \<open>elements.map\<close> callback \<open>to_place\<close>, the filter \<open>has_coords\<close>,
    \<open>normalize_places\<close>, the query text and \<open>queryOverpass\<close> with the
    service as a function from query text to \<open>response\<close> (transport failure,
    bad JSON, JSON with optional \<open>elements\<close>). Lemmas: coordinates of every
    returned place, the dropping rules, default names, the empty result.
  \<^item> \<open>Nearest\<close>: \<open>findNearestPlace\<close> (health.js 107--119), its \<open>forEach\<close>
    as \<open>nearest_loop\<close>, the spread \<open>{...p, distance_m}\<close> as the record
    extension \<open>annotated_place\<close>. The user object is a map from property
    names to numbers. Lemmas: the loop refines the reference \<open>first_min\<close>,
    which is characterised by a split \<open>pre @ p # post\<close>; the spec's
    contract; the \<open>{lat, lng}\<close> defect.
  \<^item> \<open>Ranking\<close>: \<open>places.sort\<close> with the distance-difference comparator
    (health.js 148) as a stable insertion sort \<open>array_sort\<close>; it equals
    HOL's \<open>sort_key\<close> when all distances are defined, and every stable
    sorted permutation equals it, so the choice of the engine's algorithm
    does not matter.
  \<^item> \<open>App\<close>: the page controller of health.js (lines 1--76 and
    131--187). The globals (\<open>userLatLng\<close>, the markers, the location text,
    the list) are the record \<open>page\<close>; every \<open>async\<close> handler is split at
    its \<open>await queryOverpass(...)\<close> into an issuing half
    (\<open>panic_click\<close>, \<open>findNearbyPlaces_start\<close>) and a completing half
    (\<open>panic_finish\<close>, \<open>findNearbyPlaces_finish\<close>) run by the event
    \<open>QueryReturns n r t\<close>, which answers the in-flight request \<open>n\<close> in any
    order. \<open>step\<close> is the page's reaction to one event and \<open>run\<close> folds it
    over an event list, so an interleaving of the browser is a list of
    events. Lemmas: invariants of all runs by \<open>run_invariant\<close> (panic
    alerts always carry \<open>nearest_place: null\<close>; a shown list has sorted,
    defined distances; the in-flight requests have distinct numbers below
    \<open>next_req\<close>, which the next one needs; "Searching" only while a
    nearby request is in flight, so one answer always ends it), the error
    path without a position, a run that shows a stale list, and the
    accumulation of overlapping requests.
  \<^item> \<open>AlertServer\<close>: \<open>POST /api/send-alert\<close> of healthser.js with the
    file \<open>alerts.json\<close> as \<open>NoFile | Unparsable | Stored json\<close>, the
    \<open>TypeError\<close> of \<open>push\<close> on a non-array as an error value and
    Express's status 500 for it. Lemmas: from no file the endpoint is an
    append-only log; an unparsable file is replaced; a non-array file makes
    every request fail; the client's \<open>timestamp\<close> overrides the server's.
  \<^item> \<open>Itinerary\<close>: \<open>POST /get-itinerary\<close> of server.js with the
    text-generation service as a function from prompt to outcome, and the
    click handler of script1.js. Lemmas: the 400 guard, the displayed text on
    success, and that every server failure is shown as "No itinerary
    returned.".
  \<^item> This theory: properties across components (the displayed list is sorted
    for every service answer; its first entry is the resolver's choice; the
    spec's scenario) and the page and the alert server together:
    \<open>deliver\<close> feeds the payloads a run of the page posted, in order, to
    the alert endpoint, and every panic alert it stores has
    \<open>nearest_place: null\<close>.

  \<^bold>\<open>Modelling choices.\<close> JavaScript numbers are reals: rounding is not
  modelled, so theorems about \<open>NaN\<close> from rounding (the unclamped square
  roots) are out of reach and recorded as a finding instead. Infinite
  coordinates do not occur (the service sends finite JSON numbers). No loop
  of the program is unbounded: each is structural recursion over a list
  (\<open>forEach\<close>, \<open>map\<close>, \<open>filter\<close>, the insertion sort, the fold of
  events), so no fuel is needed and every function of the model is total.
  Number formatting inside template literals and the clock are parameters.
  The environment (geolocation, the geodata service, the clock, the order
  in which answers arrive) appears only as arguments of events or as
  function parameters, so every theorem holds for all its behaviours.

  \<^bold>\<open>Not modelled.\<close> \<open>initMap\<close> and the Leaflet calls only draw
  (their effect is kept as the marker lists); the text written into the
  page is kept as the data it shows; the replies of the alert endpoint only
  open dialogs in the page and \<open>console\<close> output only prints; \<open>/ping\<close>,
  static file serving, \<open>dotenv\<close> and \<open>listen\<close> hold no logic. The page
  and the alert server meet only through \<open>deliver\<close>, which assumes every
  POST arrives and in the order sent; lost or reordered alert requests are
  not modelled.
\<close>

section \<open>The page and the alert server together\<close>

text \<open>\<open>body: JSON.stringify(payload)\<close> in health.js and \<open>express.json()\<close> in
  healthser.js: an object payload reaches the route as its list of
  properties.\<close>

definition request_body :: "json \<Rightarrow> (string \<times> json) list" where
  "request_body v = (case v of JObj ps \<Rightarrow> ps | _ \<Rightarrow> [])"

text \<open>The page's posted payloads reaching the alert endpoint in the order
  they were sent, at the server times \<open>ts\<close>, starting without
  \<open>alerts.json\<close>.\<close>

definition deliver :: "string list \<Rightarrow> json list \<Rightarrow> alerts_file" where
  "deliver ts ms = serve (zip ts (map request_body ms)) NoFile"

section \<open>Properties across components\<close>

lemma first_min_sort_key:
  "\<forall>x \<in> set xs. d x = Some (f x) \<Longrightarrow> xs \<noteq> [] \<Longrightarrow>
     first_min d xs = Some (hd (sort_key f xs), f (hd (sort_key f xs)))"
proof (induction xs)
  case Nil
  then show ?case by simp
next
  case (Cons x xs)
  show ?case
  proof (cases "xs = []")
    case True
    with Cons.prems show ?thesis by simp
  next
    case False
    then have "sort_key f xs \<noteq> []" by (metis length_0_conv length_sort)
    then obtain y ys where s: "sort_key f xs = y # ys"
      by (cases "sort_key f xs") auto
    with Cons False have fm: "first_min d xs = Some (y, f y)" by simp
    from Cons.prems have dx: "d x = Some (f x)" by simp
    show ?thesis
      using fm dx s by (auto simp: not_less)
  qed
qed

lemma has_coords_place_dist:
  "has_coords p \<Longrightarrow> place_dist lat lon p \<noteq> None"
  by (auto simp: has_coords_iff place_dist_def distanceMeters_Some)

lemma alert_field_payload:
  "k \<noteq> ''timestamp'' \<Longrightarrow>
     json_field (JObj (alert_obj t (request_body (payload lat lon now np nt)))) k =
     json_field (payload lat lon now np nt) k"
  by (auto simp: json_field_def alert_obj_def fold_obj_set_map_of request_body_def payload_def map_add_def
      split: option.split)

lemma dist_to_lat_lon [simp]:
  "dist_to [''lat'' \<mapsto> lat, ''lon'' \<mapsto> lon] = place_dist lat lon"
  by (simp add: fun_eq_iff dist_to_def place_dist_def)

text \<open>
  Claim C7. For every answer of the geodata service, the list that
  \<open>findNearbyPlaces\<close> displays (the places of the query, ranked from the
  queried position) is in non-decreasing order of distance.
\<close>

theorem query_rank_sorted:
  "sorted (map (dkey lat lon)
     (rank_places lat lon (queryOverpass fetch num_str lat lon radius types)))"
proof -
  have "place_dist lat lon p \<noteq> None"
    if "p \<in> set (queryOverpass fetch num_str lat lon radius types)" for p
    using that by (intro has_coords_place_dist queryOverpass_has_coords)
  then show ?thesis by (simp add: rank_places_sort_key)
qed

text \<open>
  Claim C5. The place ranked first (the one the list marks
  "(Nearest)") is the place that \<open>findNearestPlace\<close> returns for a user
  object with properties \<open>lat\<close> and \<open>lon\<close>, annotated with its distance,
  whenever the list is non-empty and every place has a distance.
\<close>

theorem rank_head_is_nearest:
  "ps \<noteq> [] \<Longrightarrow> \<forall>p \<in> set ps. place_dist lat lon p \<noteq> None \<Longrightarrow>
     findNearestPlace [''lat'' \<mapsto> lat, ''lon'' \<mapsto> lon] ps =
       Some (annotate (hd (rank_places lat lon ps)) (dkey lat lon (hd (rank_places lat lon ps))))"
proof -
  assume ne: "ps \<noteq> []" and def: "\<forall>p \<in> set ps. place_dist lat lon p \<noteq> None"
  then have "\<forall>p \<in> set ps. dist_to [''lat'' \<mapsto> lat, ''lon'' \<mapsto> lon] p = Some (dkey lat lon p)"
    by (simp add: place_dist_dkey)
  from first_min_sort_key [OF this ne] def show ?thesis
    by (simp add: findNearestPlace_first_min rank_places_sort_key)
qed

theorem rank_head_is_nearest_witness:
  "findNearestPlace [''lat'' \<mapsto> 12.9716, ''lon'' \<mapsto> 77.5946]
     [\<lparr>place_id = 1, place_type = ''hospital'', place_name = ''A'', place_lat = Some 12.975, place_lon = Some 77.5946, place_tags = []\<rparr>,
      \<lparr>place_id = 2, place_type = ''clinic'', place_name = ''B'', place_lat = Some 12.972, place_lon = Some 77.5946, place_tags = []\<rparr>] =
   Some (annotate (hd (rank_places 12.9716 77.5946 [\<lparr>place_id = 1, place_type = ''hospital'', place_name = ''A'', place_lat = Some 12.975, place_lon = Some 77.5946, place_tags = []\<rparr>,
      \<lparr>place_id = 2, place_type = ''clinic'', place_name = ''B'', place_lat = Some 12.972, place_lon = Some 77.5946, place_tags = []\<rparr>]))
     (dkey 12.9716 77.5946 (hd (rank_places 12.9716 77.5946 [\<lparr>place_id = 1, place_type = ''hospital'', place_name = ''A'', place_lat = Some 12.975, place_lon = Some 77.5946, place_tags = []\<rparr>,
      \<lparr>place_id = 2, place_type = ''clinic'', place_name = ''B'', place_lat = Some 12.972, place_lon = Some 77.5946, place_tags = []\<rparr>]))))"
proof -
  let ?ps = "[\<lparr>place_id = 1, place_type = ''hospital'', place_name = ''A'', place_lat = Some 12.975, place_lon = Some 77.5946, place_tags = []\<rparr>,
      \<lparr>place_id = 2, place_type = ''clinic'', place_name = ''B'', place_lat = Some 12.972, place_lon = Some 77.5946, place_tags = []\<rparr>] :: place list"
  have ne: "?ps \<noteq> []" by simp
  have d: "\<forall>p \<in> set ?ps. place_dist 12.9716 77.5946 p \<noteq> None"
    by (simp add: place_dist_def distanceMeters_Some)
  show ?thesis by (rule rank_head_is_nearest [OF ne d])
qed

text \<open>
  Claim C25. The scenario of the spec: a user at (12.9716, 77.5946)
  and places 1 at (12.9750, 77.5946) and 2 at (12.9720, 77.5946). The list
  ranks place 2 before place 1 and the resolver picks place 2 when it is given
  an object with \<open>lat\<close> and \<open>lon\<close>; with the panic handler's object
  \<open>{lat, lng}\<close> it picks nothing.
\<close>

theorem spec_scenario:
  "map place_id (rank_places 12.9716 77.5946
      [\<lparr>place_id = 1, place_type = ''hospital'', place_name = ''A'', place_lat = Some 12.975, place_lon = Some 77.5946, place_tags = []\<rparr>,
       \<lparr>place_id = 2, place_type = ''clinic'', place_name = ''B'', place_lat = Some 12.972, place_lon = Some 77.5946, place_tags = []\<rparr>]) = [2, 1] \<and>
   map_option place_id (findNearestPlace [''lat'' \<mapsto> 12.9716, ''lon'' \<mapsto> 77.5946]
      [\<lparr>place_id = 1, place_type = ''hospital'', place_name = ''A'', place_lat = Some 12.975, place_lon = Some 77.5946, place_tags = []\<rparr>,
       \<lparr>place_id = 2, place_type = ''clinic'', place_name = ''B'', place_lat = Some 12.972, place_lon = Some 77.5946, place_tags = []\<rparr>]) = Some 2 \<and>
   findNearestPlace [''lat'' \<mapsto> 12.9716, ''lng'' \<mapsto> 77.5946]
      [\<lparr>place_id = 1, place_type = ''hospital'', place_name = ''A'', place_lat = Some 12.975, place_lon = Some 77.5946, place_tags = []\<rparr>,
       \<lparr>place_id = 2, place_type = ''clinic'', place_name = ''B'', place_lat = Some 12.972, place_lon = Some 77.5946, place_tags = []\<rparr>] = None"
proof -
  let ?p1 = "\<lparr>place_id = 1, place_type = ''hospital'', place_name = ''A'', place_lat = Some 12.975, place_lon = Some 77.5946, place_tags = []\<rparr> :: place"
  let ?p2 = "\<lparr>place_id = 2, place_type = ''clinic'', place_name = ''B'', place_lat = Some 12.972, place_lon = Some 77.5946, place_tags = []\<rparr> :: place"
  have d1: "place_dist 12.9716 77.5946 ?p1 = Some (earth_R * toRad \<bar>12.975 - 12.9716\<bar>)"
    unfolding place_dist_def by (simp add: meridian_distance)
  have d2: "place_dist 12.9716 77.5946 ?p2 = Some (earth_R * toRad \<bar>12.972 - 12.9716\<bar>)"
    unfolding place_dist_def by (simp add: meridian_distance)
  have lt: "earth_R * toRad \<bar>12.972 - 12.9716\<bar> < earth_R * toRad \<bar>12.975 - 12.9716\<bar>"
    by (simp add: earth_R_def toRad_def)
  have r: "rank_places 12.9716 77.5946 [?p1, ?p2] = [?p2, ?p1]"
    using d1 d2 lt
    by (simp add: rank_places_def array_sort_def place_cmp_def js_sub_def cmp_gt_def)
  have n: "findNearestPlace [''lat'' \<mapsto> 12.9716, ''lon'' \<mapsto> 77.5946] [?p1, ?p2] =
      Some (annotate ?p2 (earth_R * toRad \<bar>12.972 - 12.9716\<bar>))"
    using d1 d2 lt by (simp add: findNearestPlace_first_min)
  have b: "findNearestPlace [''lat'' \<mapsto> 12.9716, ''lng'' \<mapsto> 77.5946] [?p1, ?p2] = None"
    by (simp add: findNearestPlace_first_min dist_to_def)
  from r n b show ?thesis by simp
qed

text \<open>
  Claim C4. Whatever the page's run and however the geodata
  service answers, when the payloads the page posts reach the alert server
  in order, every panic alert stored in \<open>alerts.json\<close> has
  \<open>nearest_place: null\<close>: the server's log never records the facility the
  panic button was meant to report.
\<close>

theorem stored_panic_alerts_null:
  assumes "deliver ts (posted (run init_page es)) = Stored (JArr alerts)"
    and "a \<in> set alerts"
    and "json_field a ''note'' = Some (JStr panic_note)"
  shows "json_field a ''nearest_place'' = Some JNull"
proof -
  let ?s = "run init_page es"
  let ?rs = "zip ts (map request_body (posted ?s))"
  have "?rs \<noteq> []"
    using assms(1) by (auto simp: deliver_def)
  with assms(1) have "alerts = map (\<lambda>(now, body). JObj (alert_obj now body)) ?rs"
    by (simp add: deliver_def serve_NoFile)
  with assms(2) obtain t b where tb: "(t, b) \<in> set ?rs" and a: "a = JObj (alert_obj t b)"
    by auto
  from tb have "b \<in> set (map request_body (posted ?s))" by (rule set_zip_rightD)
  then obtain m where m: "m \<in> set (posted ?s)" and b: "b = request_body m" by auto
  have "payloads_ok init_page" by (simp add: payloads_ok_def init_page_def)
  then have "payloads_ok ?s" by (rule run_invariant) (rule payloads_ok_step)
  with m obtain lat lon now np nt where mp: "m = payload lat lon now np nt"
    by (auto simp: payloads_ok_def)
  have "panic_ok init_page" by (simp add: panic_ok_def init_page_def)
  then have "panic_ok ?s" by (rule run_invariant) (rule panic_ok_step)
  with m have ok: "json_field m ''note'' = Some (JStr panic_note) \<longrightarrow>
      json_field m ''nearest_place'' = Some JNull"
    by (simp add: panic_ok_def)
  have "json_field a k = json_field m k" if "k \<noteq> ''timestamp''" for k
    unfolding a b mp using that by (rule alert_field_payload)
  with assms(3) ok show ?thesis by simp
qed

theorem stored_panic_alerts_null_witness:
  "deliver [''T''] (posted (run init_page
     [PageLoad True, GeoSuccess 1 2 5, PanicClick,
      QueryReturns 1 (Json (Some [\<lparr>el_id = 9, el_lat = Some 1, el_lon = Some 2, el_center = None, el_tags = None\<rparr>])) ''t''])) =
     Stored (JArr [JObj (alert_obj ''T'' (request_body (payload 1 2 ''t'' JNull panic_note)))]) \<and>
   json_field (JObj (alert_obj ''T'' (request_body (payload 1 2 ''t'' JNull panic_note)))) ''nearest_place'' = Some JNull"
proof -
  have p: "posted (run init_page
     [PageLoad True, GeoSuccess 1 2 5, PanicClick,
      QueryReturns 1 (Json (Some [\<lparr>el_id = 9, el_lat = Some 1, el_lon = Some 2, el_center = None, el_tags = None\<rparr>])) ''t'']) = [payload 1 2 ''t'' JNull panic_note]"
    by (simp add: page_defs response_defs findNearestPlace_def dist_to_def latlng_obj_def)
  then have d: "deliver [''T''] (posted (run init_page
     [PageLoad True, GeoSuccess 1 2 5, PanicClick,
      QueryReturns 1 (Json (Some [\<lparr>el_id = 9, el_lat = Some 1, el_lon = Some 2, el_center = None, el_tags = None\<rparr>])) ''t''])) =
     Stored (JArr [JObj (alert_obj ''T'' (request_body (payload 1 2 ''t'' JNull panic_note)))])"
    by (simp add: deliver_def express_send_alert_def send_alert_array)
  have n: "json_field (JObj (alert_obj ''T'' (request_body (payload 1 2 ''t'' JNull panic_note)))) ''note'' = Some (JStr panic_note)"
    by (simp add: alert_field_payload)
  from stored_panic_alerts_null [OF d _ n] d show ?thesis by simp
qed

end
